theory Spec2Isabelle
  imports Main
begin

section \<open>Characters and strings\<close>

text \<open>
  A JavaScript string is a sequence of UTF-16 code units. The model writes it as a
  \<^typ>\<open>string\<close>, one \<^typ>\<open>char\<close> per code unit, and so covers the strings whose
  code units are below 256. The code compares code units with ASCII characters, with the
  range 32..126 and with the white space class only.
\<close>

abbreviation ESC :: char where "ESC \<equiv> CHR 0x1B"
abbreviation CR :: char where "CR \<equiv> CHR 0x0D"
abbreviation LF :: char where "LF \<equiv> CHR 0x0A"
abbreviation BS :: char where "BS \<equiv> CHR 0x08"
abbreviation DEL :: char where "DEL \<equiv> CHR 0x7F"
abbreviation ETX :: char where "ETX \<equiv> CHR 0x03"
abbreviation EOT :: char where "EOT \<equiv> CHR 0x04"
abbreviation TAB :: char where "TAB \<equiv> CHR 0x09"

definition charCode :: "char \<Rightarrow> nat" where
  "charCode c = of_char c"

text \<open>The class \<open>\s\<close> of a regular expression, and what \<open>trim\<close> removes.\<close>

definition isSpace :: "char \<Rightarrow> bool" where
  "isSpace c = (charCode c \<in> {9, 10, 11, 12, 13, 32, 160})"

definition isDigit :: "char \<Rightarrow> bool" where
  "isDigit c = (48 \<le> charCode c \<and> charCode c \<le> 57)"

definition isLetter :: "char \<Rightarrow> bool" where
  "isLetter c = ((65 \<le> charCode c \<and> charCode c \<le> 90) \<or> (97 \<le> charCode c \<and> charCode c \<le> 122))"

definition trim :: "string \<Rightarrow> string" where
  "trim s = rev (dropWhile isSpace (rev (dropWhile isSpace s)))"

text \<open>
  \<open>s.split(/\s+/)\<close>: the pieces between maximal runs of white space. The flag says that
  the previous character was white space, \<open>cur\<close> is the piece being read.
\<close>

fun splitWs :: "bool \<Rightarrow> string \<Rightarrow> string \<Rightarrow> string list" where
  "splitWs inRun cur [] = [cur]"
| "splitWs inRun cur (c # cs) =
     (if isSpace c then (if inRun then splitWs True cur cs else cur # splitWs True [] cs)
      else splitWs False (cur @ [c]) cs)"

definition split_ws :: "string \<Rightarrow> string list" where
  "split_ws s = splitWs False [] s"

definition join :: "string \<Rightarrow> string list \<Rightarrow> string" where
  "join sep xs = (case xs of [] \<Rightarrow> [] | y # ys \<Rightarrow> y @ concat (map (\<lambda>z. sep @ z) ys))"

section \<open>Global regular-expression replacement\<close>

text \<open>
  A pattern is given by its matcher: the length of the match that starts at the head of
  the string, if there is one. \<open>replaceAll\<close> is \<open>String.prototype.replace\<close> with a
  global pattern: it scans from the left, and after a match it goes on behind the match.
\<close>

type_synonym matcher = "string \<Rightarrow> nat option"

fun replaceAll :: "matcher \<Rightarrow> string \<Rightarrow> string \<Rightarrow> string" where
  "replaceAll m rep [] = []"
| "replaceAll m rep (c # cs) =
     (case m (c # cs) of
        Some k \<Rightarrow> rep @ replaceAll m rep (drop (k - 1) cs)
      | None \<Rightarrow> c # replaceAll m rep cs)"

text \<open>The number of matches that \<open>s.match(pattern)\<close> returns for a global pattern.\<close>

fun countMatches :: "matcher \<Rightarrow> string \<Rightarrow> nat" where
  "countMatches m [] = 0"
| "countMatches m (c # cs) =
     (case m (c # cs) of
        Some k \<Rightarrow> Suc (countMatches m (drop (k - 1) cs))
      | None \<Rightarrow> countMatches m cs)"

definition matchLiteral :: "string \<Rightarrow> matcher" where
  "matchLiteral pat s =
     (if pat \<noteq> [] \<and> take (length pat) s = pat then Some (length pat) else None)"

definition isParamChar :: "char \<Rightarrow> bool" where
  "isParamChar c = (isDigit c \<or> c = CHR '';'')"

text \<open>
  \<open>ESC [ [0-9;]* f\<close> with \<open>f\<close> from a class: the run of parameter characters is
  greedy, and no shorter run can match, as the character behind a shorter run is a
  parameter character and the classes used for \<open>f\<close> hold none.
\<close>

definition matchCsi :: "(char \<Rightarrow> bool) \<Rightarrow> matcher" where
  "matchCsi final s =
     (case s of
        e # b # r \<Rightarrow>
          (if e = ESC \<and> b = CHR ''[''
           then (case dropWhile isParamChar r of
                   f # _ \<Rightarrow> (if final f then Some (3 + length (takeWhile isParamChar r)) else None)
                 | [] \<Rightarrow> None)
           else None)
      | _ \<Rightarrow> None)"

text \<open>\<open>/(?<!\r)\n/g\<close> replaced by CR LF; \<open>prev\<close> is the character before the head.\<close>

fun crlf :: "char option \<Rightarrow> string \<Rightarrow> string" where
  "crlf prev [] = []"
| "crlf prev (c # cs) =
     (if c = LF \<and> prev \<noteq> Some CR then [CR, LF] else [c]) @ crlf (Some c) cs"

section \<open>The terminal view of \<open>main.ts\<close>\<close>

datatype signal = SIGINT | SIGTERM | SIGKILL

datatype proc_kind = PtyShell | ClaudeProc | SimpleProc | InteractiveProc | PlainProc | TestProc

text \<open>
  A child process handle with what the view did to it, and the variables of the closures
  that were made for it: \<open>hasOutput\<close> stands for \<open>hasOutput\<close> and \<open>hasReceivedOutput\<close>,
  \<open>isActive\<close> for \<open>isActive\<close> and \<open>interactiveMode\<close>. \<open>kills\<close> are the signals sent
  by \<open>kill\<close> (\<open>None\<close> for a call without a signal), \<open>killed\<close> is the property of
  that name of the handle.
\<close>

record child =
  kind :: proc_kind
  spawnCommand :: string
  spawnArgs :: "string list"
  stdinWrites :: "string list"
  stdinEnded :: bool
  kills :: "signal option list"
  killed :: bool
  hasOutput :: bool
  isActive :: bool

text \<open>The closures that the view passes to \<open>terminal.onData\<close>; the number is the child.\<close>

datatype handler =
    HandleInput
  | PtyWrite nat
  | ClaudeInputHandler nat
  | ClaudeSimpleHandler nat
  | InteractiveInputHandler nat
  | Noop

datatype scroll = Unscrolled | Top | Bottom

record view =
  currentCommand :: string
  commandHistory :: "string list"
  historyIndex :: int
  promptShown :: bool
  processingInput :: bool
  ptyProcess :: "nat option"
  lastClaudeOutput :: string
  clearScreenCount :: nat
  children :: "child list"
  probed :: "string list"
  cwd :: string
  screen :: "string list"
  scrolled :: scroll
  dataHandlers :: "handler list"

subsection \<open>The output filter\<close>

definition clearScreenText :: string where
  "clearScreenText =
     [ESC, CHR ''['', CHR ''2'', CHR ''J'', ESC, CHR ''['', CHR ''3'', CHR ''J'', ESC, CHR ''['', CHR ''H'']"

definition homeClearText :: string where
  "homeClearText = [ESC, CHR ''['', CHR ''H'', ESC, CHR ''['', CHR ''2'', CHR ''J'']"

definition clearScreenPattern :: matcher where
  "clearScreenPattern = matchLiteral clearScreenText"

definition contentWithoutAnsi :: "string \<Rightarrow> string" where
  "contentWithoutAnsi filtered =
     replaceAll (matchCsi isLetter) [] (replaceAll (matchCsi (\<lambda>c. c = CHR ''m'')) [] filtered)"

text \<open>The text of the chunk after the clear-screen sequences were rewritten or removed.\<close>

definition filterClear :: "string \<Rightarrow> view \<Rightarrow> string" where
  "filterClear output v =
     (let n = countMatches clearScreenPattern output in
      if 0 < n
      then (if 2 < clearScreenCount v + n
            then replaceAll clearScreenPattern [] output
            else replaceAll clearScreenPattern homeClearText output)
      else output)"

definition filterClaudeOutput :: "string \<Rightarrow> view \<Rightarrow> string \<times> view" where
  "filterClaudeOutput output v =
     (let n = countMatches clearScreenPattern output;
          v1 = (if 0 < n then v\<lparr>clearScreenCount := clearScreenCount v + n\<rparr> else v);
          filtered = filterClear output v;
          content = contentWithoutAnsi filtered;
          v2 = (if content \<noteq> lastClaudeOutput v1 \<and> 50 < length content
                then v1\<lparr>clearScreenCount := 0, lastClaudeOutput := content\<rparr>
                else v1)
      in (crlf None filtered, v2))"

subsection \<open>The environment\<close>

text \<open>
  \<open>lookup\<close> gives, for a command name, the first of the three callbacks of
  \<open>testCommandAvailable\<close> that runs: the exit of the lookup process with its code, its
  error, or the timer of one second.
\<close>

datatype probe_result = ProbeExit "int option" | ProbeError | ProbeTimeout

text \<open>What the test process of \<open>check-claude\<close> does, in order.\<close>

datatype test_event =
    TestStdout string
  | TestStderr string
  | TestExit "int option"
  | TestError string
  | TestTimeout bool

text \<open>
  The operating system, the libraries and the settings, as far as the view reads them:
  \<open>resolve\<close> is \<open>path.resolve\<close> in a working directory, \<open>chdir\<close> gives the message of
  the error that \<open>process.chdir\<close> throws, if it throws, \<open>stringify\<close> is
  \<open>JSON.stringify\<close> on a list of strings.
\<close>

record env =
  win32 :: bool
  nodePty :: bool
  shell :: string
  lookup :: "string \<Rightarrow> probe_result"
  username :: string
  hostname :: string
  homedir :: string
  resolve :: "string \<Rightarrow> string \<Rightarrow> string"
  chdir :: "string \<Rightarrow> string option"
  stringify :: "string list \<Rightarrow> string"
  directTest :: "test_event list"
  defaultCommand :: string
  autoRunCommand :: bool

abbreviation APOS :: char where "APOS \<equiv> CHR 0x27"

text \<open>The two symbols U+2713 and U+2717 of the messages are written in ASCII.\<close>

definition CHECK_MARK :: string where "CHECK_MARK = ''[U+2713]''"
definition BALLOT_X :: string where "BALLOT_X = ''[U+2717]''"

function showNat :: "nat \<Rightarrow> string" where
  "showNat n =
     (if n < 10 then [char_of (48 + n)] else showNat (n div 10) @ [char_of (48 + n mod 10)])"
  by pat_completeness auto
termination
  by (relation "measure id") auto

declare showNat.simps [simp del]

definition showInt :: "int \<Rightarrow> string" where
  "showInt i = (if i < 0 then CHR ''-'' # showNat (nat (- i)) else showNat (nat i))"

subsection \<open>The terminal display\<close>

text \<open>
  Modelled from the spec: the terminal display is the widget of a library, of which the
  repository holds no code. The spec gives its interface: \<open>write\<close>, \<open>clear\<close> (reset
  the scrollback), \<open>scrollToTop\<close> and \<open>scrollToBottom\<close>. \<open>screen\<close> is the list of
  the texts written since the display was last cleared.
\<close>

definition term_write :: "string \<Rightarrow> view \<Rightarrow> view" where
  "term_write text v = v\<lparr>screen := screen v @ [text]\<rparr>"

definition term_clear :: "view \<Rightarrow> view" where
  "term_clear v = v\<lparr>screen := []\<rparr>"

definition term_reset :: "view \<Rightarrow> view" where
  "term_reset v = v\<lparr>screen := [], scrolled := Unscrolled\<rparr>"

definition term_scrollToTop :: "view \<Rightarrow> view" where
  "term_scrollToTop v = v\<lparr>scrolled := Top\<rparr>"

definition term_scrollToBottom :: "view \<Rightarrow> view" where
  "term_scrollToBottom v = v\<lparr>scrolled := Bottom\<rparr>"

text \<open>
  \<open>onData\<close> of the terminal display, which is the event of an emitter: a call adds
  the handler to the listeners of the event and returns a disposable that would remove
  it again. The view keeps none of the disposables it gets, and so never removes a
  listener; the handler of a call comes behind the ones bound before. The spec asks for a
  single active subscription, and the comment in \<open>restartTerminal\<close> takes a call to
  replace the earlier handlers; the emitter does not.
\<close>

definition term_onData :: "handler \<Rightarrow> view \<Rightarrow> view" where
  "term_onData h v = v\<lparr>dataHandlers := dataHandlers v @ [h]\<rparr>"

subsection \<open>Child processes\<close>

definition childAt :: "view \<Rightarrow> nat \<Rightarrow> child option" where
  "childAt v p = (if p < length (children v) then Some (children v ! p) else None)"

definition flag :: "(child \<Rightarrow> bool) \<Rightarrow> view \<Rightarrow> nat \<Rightarrow> bool" where
  "flag f v p = (case childAt v p of Some c \<Rightarrow> f c | None \<Rightarrow> False)"

definition updChild :: "nat \<Rightarrow> (child \<Rightarrow> child) \<Rightarrow> view \<Rightarrow> view" where
  "updChild p f v =
     (if p < length (children v) then v\<lparr>children := (children v)[p := f (children v ! p)]\<rparr>
      else v)"

definition spawn :: "proc_kind \<Rightarrow> string \<Rightarrow> string list \<Rightarrow> view \<Rightarrow> nat \<times> view" where
  "spawn k c a v =
     (length (children v),
      v\<lparr>children := children v @
         [\<lparr>kind = k, spawnCommand = c, spawnArgs = a, stdinWrites = [], stdinEnded = False,
           kills = [], killed = False, hasOutput = False, isActive = True\<rparr>]\<rparr>)"

definition stdin_write :: "nat \<Rightarrow> string \<Rightarrow> view \<Rightarrow> view" where
  "stdin_write p d v = updChild p (\<lambda>c. c\<lparr>stdinWrites := stdinWrites c @ [d]\<rparr>) v"

definition stdin_end :: "nat \<Rightarrow> view \<Rightarrow> view" where
  "stdin_end p v = updChild p (\<lambda>c. c\<lparr>stdinEnded := True\<rparr>) v"

text \<open>
  \<open>kill\<close> of a handle of \<open>child_process\<close> sends the signal and, once it is sent,
  sets \<open>killed\<close> of the handle: \<open>killed\<close> says that a signal was sent, not that
  the process has ended. A handle of \<open>node-pty\<close> has no such property. Every
  \<open>kill\<close> of the view is of a process that has not reported its exit, and the model
  takes the signal as sent.
\<close>

definition kill :: "nat \<Rightarrow> signal option \<Rightarrow> view \<Rightarrow> view" where
  "kill p sig v =
     updChild p (\<lambda>c. if kind c = PtyShell then c\<lparr>kills := kills c @ [sig]\<rparr>
                      else c\<lparr>kills := kills c @ [sig], killed := True\<rparr>) v"

definition setHasOutput :: "nat \<Rightarrow> view \<Rightarrow> view" where
  "setHasOutput p v = updChild p (\<lambda>c. c\<lparr>hasOutput := True\<rparr>) v"

definition setInactive :: "nat \<Rightarrow> view \<Rightarrow> view" where
  "setInactive p v = updChild p (\<lambda>c. c\<lparr>isActive := False\<rparr>) v"

subsection \<open>The line editor\<close>

definition promptText :: "env \<Rightarrow> view \<Rightarrow> string" where
  "promptText e v =
     (let home = homedir e;
          displayCwd = (if take (length home) (cwd v) = home
                        then CHR ''~'' # drop (length home) (cwd v) else cwd v)
      in username e @ ''@'' @ hostname e @ '':'' @ displayCwd @ ''$ '')"

definition showPrompt :: "env \<Rightarrow> view \<Rightarrow> view" where
  "showPrompt e v =
     (let v1 = v\<lparr>currentCommand := []\<rparr>;
          v2 = (if promptShown v1 then term_write ([CR, LF] @ promptText e v1) v1
                else (term_write (promptText e v1) v1)\<lparr>promptShown := True\<rparr>)
      in term_scrollToBottom v2)"

definition replaceCurrentCommand :: "string \<Rightarrow> view \<Rightarrow> view" where
  "replaceCurrentCommand newCommand v =
     (let clearLength = length (currentCommand v);
          v1 = v\<lparr>screen := screen v @ replicate clearLength [BS, CHR '' '', BS]\<rparr>;
          v2 = v1\<lparr>currentCommand := newCommand\<rparr>
      in term_write newCommand v2)"

text \<open>
  \<open>commandHistory[i]\<close>. Outside the list JavaScript gives \<open>undefined\<close>, which then
  becomes the command buffer; the model has no such buffer and leaves the view as it is
  there. The index is inside the list wherever the view reads it (lemmas
  \<open>history_read_up\<close> and \<open>history_read_down\<close>).
\<close>

definition historyAt :: "view \<Rightarrow> int \<Rightarrow> string option" where
  "historyAt v i =
     (if 0 \<le> i \<and> i < int (length (commandHistory v)) then Some (commandHistory v ! nat i)
      else None)"

definition replaceFromHistory :: "view \<Rightarrow> view" where
  "replaceFromHistory v =
     (case historyAt v (historyIndex v) of
        Some c \<Rightarrow> replaceCurrentCommand c v
      | None \<Rightarrow> v)"

definition printableFirst :: "string \<Rightarrow> bool" where
  "printableFirst data =
     (case data of [] \<Rightarrow> False | c # _ \<Rightarrow> 32 \<le> charCode c \<and> charCode c < 127)"

definition UP :: string where "UP = [ESC, CHR ''['', CHR ''A'']"
definition DOWN :: string where "DOWN = [ESC, CHR ''['', CHR ''B'']"

subsection \<open>The command dispatcher\<close>

text \<open>
  The functions \<open>executeCommand\<close> and \<open>handleClaudeCommand\<close> are asynchronous: they
  wait for the lookups. The model takes the result of each lookup from the environment
  and runs the function to its end in one step.
\<close>

definition testCommandAvailable :: "env \<Rightarrow> string \<Rightarrow> view \<Rightarrow> bool \<times> view" where
  "testCommandAvailable e cmd v =
     ((case lookup e cmd of
         ProbeExit code \<Rightarrow> code = Some 0
       | ProbeError \<Rightarrow> False
       | ProbeTimeout \<Rightarrow> False),
      v\<lparr>probed := probed v @ [cmd]\<rparr>)"

definition expectScript :: "string list \<Rightarrow> string" where
  "expectScript args =
     [LF] @ replicate 5 TAB @ ''spawn claude '' @ join '' '' args @
     [LF] @ replicate 5 TAB @ ''interact'' @ [LF] @ replicate 4 TAB"

definition pythonScript :: "env \<Rightarrow> string list \<Rightarrow> string" where
  "pythonScript e args = join [LF]
     [[],
      ''import pty'',
      ''import subprocess'',
      ''import sys'',
      ''import os'',
      [],
      ''def run_claude():'',
      TAB # ''# Create a pseudo-terminal'',
      TAB # ''master, slave = pty.openpty()'',
      [TAB],
      TAB # ''# Start Claude with the slave as stdin/stdout/stderr'',
      TAB # ''proc = subprocess.Popen(['' @ [APOS] @ ''claude'' @ [APOS] @ ''] + '' @
        stringify e args @ '', '',
      TAB # TAB # ''stdin=slave, stdout=slave, stderr=slave,'',
      TAB # TAB # ''preexec_fn=os.setsid)'',
      [TAB],
      TAB # ''os.close(slave)'',
      [TAB],
      TAB # ''# Forward data between master and our stdin/stdout'',
      TAB # ''while proc.poll() is None:'',
      TAB # TAB # ''try:'',
      TAB # TAB # TAB # ''data = os.read(master, 1024)'',
      TAB # TAB # TAB # ''if data:'',
      TAB # TAB # TAB # TAB # ''sys.stdout.buffer.write(data)'',
      TAB # TAB # TAB # TAB # ''sys.stdout.flush()'',
      TAB # TAB # ''except:'',
      TAB # TAB # TAB # ''break'',
      [TAB],
      TAB # ''os.close(master)'',
      TAB # ''return proc.returncode'',
      [],
      ''run_claude()'',
      replicate 5 TAB]"

text \<open>
  The way \<open>handleClaudeCommand\<close> starts the tool: the command, its arguments and the
  line that tells the user, with the lookups it made.
\<close>

definition claudeStrategy ::
  "env \<Rightarrow> string list \<Rightarrow> view \<Rightarrow> (string \<times> string list \<times> string) \<times> view" where
  "claudeStrategy e args v =
     (let claudeCmd = (if 0 < length args then ''claude '' @ join '' '' args else ''claude'') in
      if win32 e
      then ((''cmd.exe'', [''/c'', claudeCmd], ''Using Windows command prompt...'' @ [CR, LF]), v)
      else
        (let (expectAvailable, v1) = testCommandAvailable e ''expect'' v;
             (stdbufAvailable, v2) = testCommandAvailable e ''stdbuf'' v1;
             (unbufferAvailable, v3) = testCommandAvailable e ''unbuffer'' v2
         in if expectAvailable
            then ((''expect'', [''-c'', expectScript args],
                   ''Using expect for TTY simulation...'' @ [CR, LF]), v3)
            else if stdbufAvailable
            then ((''stdbuf'', [''-oL'', ''-eL'', ''claude''] @ args,
                   ''Using stdbuf for forced line buffering...'' @ [CR, LF]), v3)
            else if unbufferAvailable
            then ((''unbuffer'', [''-p'', ''claude''] @ args,
                   ''Using unbuffer for TTY simulation...'' @ [CR, LF]), v3)
            else
              (let (pythonAvailable, v4) = testCommandAvailable e ''python3'' v3
               in if pythonAvailable
                  then ((''python3'', [''-c'', pythonScript e args],
                         ''Using Python PTY simulation...'' @ [CR, LF]), v4)
                  else ((''claude'', args,
                         ''Using direct Claude execution...'' @ [CR, LF]), v4))))"

definition handleClaudeCommand :: "env \<Rightarrow> string list \<Rightarrow> view \<Rightarrow> view" where
  "handleClaudeCommand e args v =
     (let (claudeAvailable, v1) = testCommandAvailable e ''claude'' v in
      if \<not> claudeAvailable
      then
        (let v2 = term_write (''claude: command not found'' @ [CR, LF]) v1;
             v3 = term_write
                    (''Please install Claude Code CLI first. Visit: https://claude.ai/code'' @
                     [CR, LF]) v2
         in showPrompt e v3)
      else
        (let v2 = term_write (''Starting Claude Code...'' @ [CR, LF]) v1;
             ((command, spawnArgs, note), v3) = claudeStrategy e args v2;
             v4 = term_write note v3;
             v5 = term_write
                    (''Executing: '' @ command @ '' '' @ join '' '' (take 2 spawnArgs) @
                     (if 2 < length spawnArgs then ''...'' else []) @ [CR, LF]) v4;
             (p, v6) = spawn ClaudeProc command spawnArgs v5;
             v7 = v6\<lparr>ptyProcess := Some p\<rparr>;
             v8 = term_onData (ClaudeInputHandler p) v7
         in term_write (CHECK_MARK @ '' Claude Code started'' @ [CR, LF]) v8))"

definition handleInteractiveCommand :: "nat \<Rightarrow> view \<Rightarrow> view" where
  "handleInteractiveCommand p v = term_onData (InteractiveInputHandler p) (v\<lparr>ptyProcess := Some p\<rparr>)"

text \<open>
  The test process of \<open>check-claude\<close>: its events up to the first one that resolves the
  promise. The result says whether the promise was resolved.
\<close>

definition showCode :: "int option \<Rightarrow> string" where
  "showCode code = (case code of None \<Rightarrow> ''null'' | Some c \<Rightarrow> showInt c)"

fun directTestRun :: "nat \<Rightarrow> bool \<Rightarrow> test_event list \<Rightarrow> view \<Rightarrow> bool \<times> view" where
  "directTestRun p outputReceived [] v = (False, v)"
| "directTestRun p outputReceived (TestStdout d # evs) v =
     directTestRun p True evs (term_write (''[STDOUT] '' @ d) v)"
| "directTestRun p outputReceived (TestStderr d # evs) v =
     directTestRun p True evs (term_write (''[STDERR] '' @ d) v)"
| "directTestRun p outputReceived (TestExit code # evs) v =
     (let v1 = (if \<not> outputReceived
                then term_write (''No output received, exit code: '' @ showCode code @ [CR, LF]) v
                else v)
      in (True, term_write (''Direct test completed.'' @ [CR, LF]) v1))"
| "directTestRun p outputReceived (TestError msg # evs) v =
     (True, term_write (''Test error: '' @ msg @ [CR, LF]) v)"
| "directTestRun p outputReceived (TestTimeout wasKilled # evs) v =
     (True, if \<not> wasKilled
            then term_write (''Test timed out after 5 seconds'' @ [CR, LF]) (kill p None v)
            else v)"

definition checkClaude :: "env \<Rightarrow> view \<Rightarrow> view" where
  "checkClaude e v =
     (let v1 = term_write (''Checking Claude Code CLI installation...'' @ [CR, LF]) v;
          (claudeAvailable, v2) = testCommandAvailable e ''claude'' v1
      in if claudeAvailable
         then
           (let v3 = term_write (CHECK_MARK @ '' Claude Code CLI found in PATH'' @ [CR, LF]) v2;
                v4 = term_write (''Testing direct claude execution...'' @ [CR, LF]) v3;
                (p, v5) = spawn TestProc ''bash'' [''-c'', ''claude --version''] v4;
                (resolved, v6) = directTestRun p False (directTest e) v5
            in if resolved then showPrompt e v6 else v6)
         else
           (let v3 = term_write (BALLOT_X @ '' Claude Code CLI not found in PATH'' @ [CR, LF]) v2;
                v4 = term_write (''Please install it from: https://claude.ai/code'' @ [CR, LF]) v3
            in showPrompt e v4))"

definition claudeSimple :: "env \<Rightarrow> view \<Rightarrow> view" where
  "claudeSimple e v =
     (let v1 = term_write (''Testing Claude with simple execution...'' @ [CR, LF]) v;
          (claudeAvailable, v2) = testCommandAvailable e ''claude'' v1
      in if \<not> claudeAvailable
         then showPrompt e (term_write (BALLOT_X @ '' Claude CLI not found'' @ [CR, LF]) v2)
         else
           (let (p, v3) = spawn SimpleProc ''claude'' [] v2;
                v4 = v3\<lparr>ptyProcess := Some p\<rparr>
            in term_onData (ClaudeSimpleHandler p) v4))"

definition isInteractiveName :: "string \<Rightarrow> bool" where
  "isInteractiveName cmd = (cmd = ''python'' \<or> cmd = ''node'' \<or> cmd = ''mongo'' \<or> cmd = ''psql'')"

definition executeCommand :: "env \<Rightarrow> string \<Rightarrow> view \<Rightarrow> view" where
  "executeCommand e command v =
     (case split_ws command of
        [] \<Rightarrow> v
      | cmd # args \<Rightarrow>
          if cmd = ''clear''
          then showPrompt e (term_scrollToTop (term_clear v))
          else if cmd = ''cd''
          then
            (let newDir = (case args of
                             [] \<Rightarrow> homedir e
                           | a # _ \<Rightarrow> if a \<noteq> [] then resolve e (cwd v) a else homedir e)
             in case chdir e newDir of
                  None \<Rightarrow> showPrompt e (v\<lparr>cwd := newDir\<rparr>)
                | Some message \<Rightarrow> showPrompt e (term_write (''cd: '' @ message @ [CR, LF]) v))
          else if cmd = ''claude'' then handleClaudeCommand e args v
          else if cmd = ''check-claude'' then checkClaude e v
          else if cmd = ''claude-simple'' then claudeSimple e v
          else
            (let (testAvailable, v1) =
                   (if cmd \<noteq> ''cd'' \<and> cmd \<noteq> ''clear'' then testCommandAvailable e cmd v
                    else (True, v))
             in if \<not> testAvailable
                then showPrompt e (term_write (cmd @ '': command not found'' @ [CR, LF]) v1)
                else
                  (let (p, v2) = spawn (if isInteractiveName cmd then InteractiveProc
                                        else PlainProc) cmd args v1
                   in if isInteractiveName cmd then handleInteractiveCommand p v2 else v2)))"

definition handleInput :: "env \<Rightarrow> string \<Rightarrow> view \<Rightarrow> view" where
  "handleInput e data v =
     (if ptyProcess v \<noteq> None then v
      else if processingInput v then v
      else
        (let v0 = v\<lparr>processingInput := True\<rparr> in
         if data = [CR]
         then
           (let v1 = term_write [CR, LF] v0 in
            if trim (currentCommand v1) \<noteq> []
            then
              (let cleanCommand = trim (currentCommand v1);
                   v2 = v1\<lparr>commandHistory := commandHistory v1 @ [cleanCommand]\<rparr>;
                   v3 = v2\<lparr>historyIndex := int (length (commandHistory v2))\<rparr>;
                   v4 = v3\<lparr>currentCommand := [], processingInput := False\<rparr>
               in executeCommand e cleanCommand v4)
            else showPrompt e (v1\<lparr>processingInput := False\<rparr>))
         else if data = [DEL] \<or> data = [BS]
         then
           (let v1 = (if 0 < length (currentCommand v0)
                      then term_write [BS, CHR '' '', BS]
                             (v0\<lparr>currentCommand := butlast (currentCommand v0)\<rparr>)
                      else v0)
            in v1\<lparr>processingInput := False\<rparr>)
         else if data = [ETX]
         then
           (let v1 = (case ptyProcess v0 of
                        Some p \<Rightarrow> term_write (''^C'' @ [CR, LF]) (kill p (Some SIGINT) v0)
                      | None \<Rightarrow>
                          if 0 < length (currentCommand v0)
                          then showPrompt e
                                 ((term_write (''^C'' @ [CR, LF]) v0)\<lparr>currentCommand := []\<rparr>)
                          else v0)
            in v1\<lparr>processingInput := False\<rparr>)
         else if data = UP
         then
           (let v1 = (if 0 < historyIndex v0
                      then replaceFromHistory (v0\<lparr>historyIndex := historyIndex v0 - 1\<rparr>)
                      else v0)
            in v1\<lparr>processingInput := False\<rparr>)
         else if data = DOWN
         then
           (let v1 = (if historyIndex v0 < int (length (commandHistory v0)) - 1
                      then replaceFromHistory (v0\<lparr>historyIndex := historyIndex v0 + 1\<rparr>)
                      else if historyIndex v0 = int (length (commandHistory v0)) - 1
                      then replaceCurrentCommand [] (v0\<lparr>historyIndex := historyIndex v0 + 1\<rparr>)
                      else v0)
            in v1\<lparr>processingInput := False\<rparr>)
         else if printableFirst data
         then (term_write data (v0\<lparr>currentCommand := currentCommand v0 @ data\<rparr>))
                \<lparr>processingInput := False\<rparr>
         else v0\<lparr>processingInput := False\<rparr>))"

subsection \<open>Process sessions\<close>

text \<open>A handle of \<open>node-pty\<close> has \<open>write\<close> and no \<open>stdin\<close>.\<close>

definition hasStdin :: "child \<Rightarrow> bool" where
  "hasStdin c = (kind c \<noteq> PtyShell)"

definition truthy :: "string option \<Rightarrow> bool" where
  "truthy s = (case s of None \<Rightarrow> False | Some t \<Rightarrow> t \<noteq> [])"

definition signalName :: "string option \<Rightarrow> string" where
  "signalName s = (case s of None \<Rightarrow> ''null'' | Some t \<Rightarrow> t)"

definition nonzero :: "int option \<Rightarrow> bool" where
  "nonzero code = (code \<noteq> Some 0 \<and> code \<noteq> None)"

text \<open>Leaving a session: the three statements that every exit and error listener starts with.\<close>

definition restoreInput :: "nat \<Rightarrow> view \<Rightarrow> view" where
  "restoreInput p v = (term_onData HandleInput (setInactive p v))\<lparr>ptyProcess := None\<rparr>"

text \<open>The session of the \<open>claude\<close> command (\<open>handleClaudeCommand\<close>).\<close>

definition claudeOutput :: "nat \<Rightarrow> string \<Rightarrow> view \<Rightarrow> view" where
  "claudeOutput p data v =
     (let v1 = setHasOutput p v;
          (output, v2) = filterClaudeOutput data v1
      in term_scrollToBottom (term_write output v2))"

definition claudeInputHandler :: "nat \<Rightarrow> string \<Rightarrow> view \<Rightarrow> view" where
  "claudeInputHandler p data v =
     (case ptyProcess v of
        None \<Rightarrow> v
      | Some q \<Rightarrow>
          if flag hasStdin v q \<and> \<not> flag killed v q \<and> flag isActive v p
          then stdin_write q data v else v)"

definition claudeError :: "env \<Rightarrow> nat \<Rightarrow> string \<Rightarrow> view \<Rightarrow> view" where
  "claudeError e p message v =
     showPrompt e (term_write (''Error starting Claude: '' @ message @ [CR, LF]) (restoreInput p v))"

definition claudeExit :: "env \<Rightarrow> nat \<Rightarrow> int option \<Rightarrow> string option \<Rightarrow> view \<Rightarrow> view" where
  "claudeExit e p code sig v =
     (let v1 = restoreInput p v;
          v2 = (if truthy sig
                then term_write
                       ([CR, LF] @ ''Claude terminated by signal: '' @ signalName sig @ [CR, LF]) v1
                else if nonzero code
                then term_write ([CR, LF] @ ''Claude exited with code '' @ showCode code @ [CR, LF]) v1
                else v1)
      in showPrompt e v2)"

datatype timer =
    Greeting | Nudge | Hint | FinalTimeout | FinalKill
  | SimpleHello
  | CtrlCTerm | CtrlCKill
  | PtyDefaultCommand

definition claudeTimer :: "nat \<Rightarrow> timer \<Rightarrow> view \<Rightarrow> view" where
  "claudeTimer p t v =
     (case t of
        Greeting \<Rightarrow>
          (case ptyProcess v of
             None \<Rightarrow> v
           | Some q \<Rightarrow>
               if flag hasStdin v q \<and> flag isActive v p
               then stdin_write q
                      (''Hello! I'' @ [APOS] @ ''m ready to help you with coding tasks.'' @ [LF]) v
               else v)
      | Nudge \<Rightarrow>
          if \<not> flag hasOutput v p \<and> flag isActive v p
          then
            (let v1 = term_write (''Waiting for Claude to respond...'' @ [CR, LF]) v
             in case ptyProcess v1 of
                  None \<Rightarrow> v1
                | Some q \<Rightarrow> if flag hasStdin v1 q then stdin_write q [CR] v1 else v1)
          else v
      | Hint \<Rightarrow>
          if \<not> flag hasOutput v p \<and> flag isActive v p
          then term_write
                 (''You can try typing a message or press Ctrl+C to cancel.'' @ [CR, LF])
                 (term_write
                   (''This might be the first run - Claude may be initializing.'' @ [CR, LF])
                   (term_write (''Claude is taking longer than expected.'' @ [CR, LF]) v))
          else v
      | FinalTimeout \<Rightarrow>
          (case ptyProcess v of
             None \<Rightarrow> v
           | Some q \<Rightarrow>
               if \<not> flag hasOutput v p \<and> flag isActive v p \<and> \<not> flag killed v q
               then kill q (Some SIGTERM)
                      (term_write
                        ([CR, LF] @ ''Claude did not respond within 15 seconds. Terminating...'' @
                         [CR, LF]) v)
               else v)
      | FinalKill \<Rightarrow>
          (case ptyProcess v of
             None \<Rightarrow> v
           | Some q \<Rightarrow> if \<not> flag killed v q then kill q (Some SIGKILL) v else v)
      | _ \<Rightarrow> v)"

text \<open>The session of \<open>claude-simple\<close>.\<close>

definition claudeHandler :: "nat \<Rightarrow> string \<Rightarrow> view \<Rightarrow> view" where
  "claudeHandler p data v = (if \<not> flag killed v p then stdin_write p data v else v)"

definition simpleExit :: "env \<Rightarrow> nat \<Rightarrow> view \<Rightarrow> view" where
  "simpleExit e p v =
     showPrompt e
       (term_write ([CR, LF] @ ''Claude simple test ended.'' @ [CR, LF])
         ((term_onData HandleInput v)\<lparr>ptyProcess := None\<rparr>))"

definition simpleError :: "env \<Rightarrow> nat \<Rightarrow> string \<Rightarrow> view \<Rightarrow> view" where
  "simpleError e p message v =
     showPrompt e
       (term_write (''Error: '' @ message @ [CR, LF])
         ((term_onData HandleInput v)\<lparr>ptyProcess := None\<rparr>))"

text \<open>
  The session of an interactive tool (\<open>handleInteractiveCommand\<close>). The listeners of
  \<open>handleInteractiveCommand\<close> are registered before those of \<open>executeCommand\<close> and run
  first.
\<close>

definition interactiveInputHandler :: "nat \<Rightarrow> string \<Rightarrow> view \<Rightarrow> view" where
  "interactiveInputHandler p data v =
     (if \<not> flag killed v p \<and> flag isActive v p
      then
        (if data = [ETX]
         then (if flag hasOutput v p
               then stdin_write p [ETX] v
               else kill p (Some SIGINT) (term_write (''^C'' @ [CR, LF]) v))
         else if data = [EOT] then stdin_end p v
         else if data = [CR] then stdin_write p [LF] v
         else stdin_write p data v)
      else v)"

definition interactiveTimer :: "nat \<Rightarrow> timer \<Rightarrow> view \<Rightarrow> view" where
  "interactiveTimer p t v =
     (case t of
        CtrlCTerm \<Rightarrow> if \<not> flag killed v p then kill p (Some SIGTERM) v else v
      | CtrlCKill \<Rightarrow> if \<not> flag killed v p then kill p (Some SIGKILL) v else v
      | _ \<Rightarrow> v)"

definition plainOutput :: "string \<Rightarrow> view \<Rightarrow> view" where
  "plainOutput data v = term_scrollToBottom (term_write data v)"

definition interactiveStdout :: "nat \<Rightarrow> string \<Rightarrow> view \<Rightarrow> view" where
  "interactiveStdout p data v = plainOutput data (plainOutput data (setHasOutput p v))"

definition interactiveExit :: "env \<Rightarrow> nat \<Rightarrow> int option \<Rightarrow> view \<Rightarrow> view" where
  "interactiveExit e p code v =
     (let v1 = restoreInput p v;
          v2 = (if flag hasOutput v1 p
                then (if nonzero code
                      then term_write
                             ([CR, LF] @ ''Process exited with code '' @ showCode code @ [CR, LF]) v1
                      else v1)
                else term_write (''claude: command failed to start or not found'' @ [CR, LF]) v1)
      in showPrompt e v2)"

definition interactiveError :: "env \<Rightarrow> nat \<Rightarrow> string \<Rightarrow> string \<Rightarrow> view \<Rightarrow> view" where
  "interactiveError e p cmd message v =
     (let v1 = restoreInput p v;
          v2 = showPrompt e (term_write (''claude: '' @ message @ [CR, LF]) v1)
      in term_write (cmd @ '': command not found'' @ [CR, LF]) v2)"

definition interactiveClose :: "env \<Rightarrow> nat \<Rightarrow> view \<Rightarrow> view" where
  "interactiveClose e p v =
     (if flag isActive v p
      then
        (let v1 = restoreInput p v;
             v2 = (if \<not> flag hasOutput v1 p
                   then term_write (''claude: command not found or failed to start'' @ [CR, LF]) v1
                   else v1)
         in showPrompt e v2)
      else v)"

text \<open>An external command that is not an interactive tool: \<open>ptyProcess\<close> is not set.\<close>

definition plainError :: "env \<Rightarrow> string \<Rightarrow> view \<Rightarrow> view" where
  "plainError e cmd v = showPrompt e (term_write (cmd @ '': command not found'' @ [CR, LF]) v)"

text \<open>
  The shell of \<open>node-pty\<close> (\<open>startPty\<close>). Its closures read the field \<open>ptyProcess\<close>;
  where the field is null the call throws and nothing happens.
\<close>

definition ptyWrite :: "string \<Rightarrow> view \<Rightarrow> view" where
  "ptyWrite data v = (case ptyProcess v of None \<Rightarrow> v | Some q \<Rightarrow> stdin_write q data v)"

subsection \<open>Opening and restarting the view\<close>

definition startBasicShell :: "env \<Rightarrow> view \<Rightarrow> view" where
  "startBasicShell e v =
     (let v1 = v\<lparr>currentCommand := [], commandHistory := [], historyIndex := - 1\<rparr>;
          v2 = (case chdir e (homedir e) of None \<Rightarrow> v1\<lparr>cwd := homedir e\<rparr> | Some _ \<Rightarrow> v1)
      in term_onData HandleInput v2)"

definition startPty :: "env \<Rightarrow> view \<Rightarrow> view" where
  "startPty e v =
     (if nodePty e
      then
        (let (p, v1) = spawn PtyShell (shell e) [] v;
             v2 = v1\<lparr>ptyProcess := Some p\<rparr>
         in term_onData (PtyWrite p) v2)
      else startBasicShell e v)"

text \<open>The view as its constructor and \<open>new Terminal\<close> leave it, in a working directory.\<close>

definition newView :: "string \<Rightarrow> view" where
  "newView dir =
     \<lparr>currentCommand = [], commandHistory = [], historyIndex = - 1, promptShown = False,
      processingInput = False, ptyProcess = None, lastClaudeOutput = [], clearScreenCount = 0,
      children = [], probed = [], cwd = dir, screen = [], scrolled = Unscrolled,
      dataHandlers = []\<rparr>"

definition onOpen :: "env \<Rightarrow> view \<Rightarrow> view" where
  "onOpen e v = startPty e v"

definition restartTerminal :: "env \<Rightarrow> view \<Rightarrow> view" where
  "restartTerminal e v =
     (let v1 = (case ptyProcess v of
                  None \<Rightarrow> v
                | Some p \<Rightarrow> (kill p (Some SIGTERM) v)\<lparr>ptyProcess := None\<rparr>);
          v2 = term_onData Noop (term_scrollToTop (term_clear v1));
          v3 = v2\<lparr>currentCommand := [], commandHistory := [], historyIndex := - 1,
                  promptShown := False, processingInput := False\<rparr>
      in startPty e v3)"

text \<open>The timers of \<open>startBasicShell\<close>.\<close>

datatype startup = StartupClear | StartupPrompt | AutoRunType | AutoRunEnter

definition startupTimer :: "env \<Rightarrow> startup \<Rightarrow> view \<Rightarrow> view" where
  "startupTimer e t v =
     (case t of
        StartupClear \<Rightarrow> term_reset (term_clear v)
      | StartupPrompt \<Rightarrow> showPrompt e (term_clear v)
      | AutoRunType \<Rightarrow>
          if autoRunCommand e \<and> defaultCommand e \<noteq> []
          then term_write (defaultCommand e) (v\<lparr>currentCommand := defaultCommand e\<rparr>)
          else v
      | AutoRunEnter \<Rightarrow>
          if autoRunCommand e \<and> defaultCommand e \<noteq> [] then handleInput e [CR] v else v)"

subsection \<open>Events\<close>

text \<open>
  Everything that runs code of the view: data from the terminal, the events of a child
  process, a timer, and a restart. Data from the terminal runs the listeners that are
  bound when it comes, in the order of their binding. Events and timers of a child that
  was never spawned do nothing. Which timers are pending is not
  recorded: a timer may run at any time, also one that the code has not set.
\<close>

datatype event =
    Data string
  | Stdout nat string
  | Stderr nat string
  | ProcExit nat "int option" "string option"
  | ProcError nat string
  | ProcClose nat
  | Timer nat timer
  | Startup startup
  | Restart

definition runHandler :: "env \<Rightarrow> string \<Rightarrow> view \<Rightarrow> handler \<Rightarrow> view" where
  "runHandler e data v h =
     (case h of
        HandleInput \<Rightarrow> handleInput e data v
      | PtyWrite p \<Rightarrow> ptyWrite data v
      | ClaudeInputHandler p \<Rightarrow> claudeInputHandler p data v
      | ClaudeSimpleHandler p \<Rightarrow> claudeHandler p data v
      | InteractiveInputHandler p \<Rightarrow> interactiveInputHandler p data v
      | Noop \<Rightarrow> v)"

definition onStdout :: "nat \<Rightarrow> string \<Rightarrow> view \<Rightarrow> view" where
  "onStdout p data v =
     (case childAt v p of
        None \<Rightarrow> v
      | Some c \<Rightarrow>
          (case kind c of
             PtyShell \<Rightarrow> term_write data v
           | ClaudeProc \<Rightarrow> claudeOutput p data v
           | SimpleProc \<Rightarrow> term_write data v
           | InteractiveProc \<Rightarrow> interactiveStdout p data v
           | PlainProc \<Rightarrow> plainOutput data v
           | TestProc \<Rightarrow> v))"

definition onStderr :: "nat \<Rightarrow> string \<Rightarrow> view \<Rightarrow> view" where
  "onStderr p data v =
     (case childAt v p of
        None \<Rightarrow> v
      | Some c \<Rightarrow>
          (case kind c of
             PtyShell \<Rightarrow> v
           | ClaudeProc \<Rightarrow> claudeOutput p data v
           | SimpleProc \<Rightarrow> term_write data v
           | InteractiveProc \<Rightarrow> plainOutput data v
           | PlainProc \<Rightarrow> plainOutput data v
           | TestProc \<Rightarrow> v))"

definition onExit :: "env \<Rightarrow> nat \<Rightarrow> int option \<Rightarrow> string option \<Rightarrow> view \<Rightarrow> view" where
  "onExit e p code sig v =
     (case childAt v p of
        None \<Rightarrow> v
      | Some c \<Rightarrow>
          (case kind c of
             PtyShell \<Rightarrow> v
           | ClaudeProc \<Rightarrow> claudeExit e p code sig v
           | SimpleProc \<Rightarrow> simpleExit e p v
           | InteractiveProc \<Rightarrow> interactiveExit e p code v
           | PlainProc \<Rightarrow> showPrompt e v
           | TestProc \<Rightarrow> v))"

definition onError :: "env \<Rightarrow> nat \<Rightarrow> string \<Rightarrow> view \<Rightarrow> view" where
  "onError e p message v =
     (case childAt v p of
        None \<Rightarrow> v
      | Some c \<Rightarrow>
          (case kind c of
             PtyShell \<Rightarrow> v
           | ClaudeProc \<Rightarrow> claudeError e p message v
           | SimpleProc \<Rightarrow> simpleError e p message v
           | InteractiveProc \<Rightarrow> interactiveError e p (spawnCommand c) message v
           | PlainProc \<Rightarrow> plainError e (spawnCommand c) v
           | TestProc \<Rightarrow> v))"

definition onClose :: "env \<Rightarrow> nat \<Rightarrow> view \<Rightarrow> view" where
  "onClose e p v =
     (case childAt v p of
        None \<Rightarrow> v
      | Some c \<Rightarrow> (if kind c = InteractiveProc then interactiveClose e p v else v))"

definition onTimer :: "env \<Rightarrow> nat \<Rightarrow> timer \<Rightarrow> view \<Rightarrow> view" where
  "onTimer e p t v =
     (case childAt v p of
        None \<Rightarrow> v
      | Some c \<Rightarrow>
          (case kind c of
             PtyShell \<Rightarrow> (if t = PtyDefaultCommand then ptyWrite (defaultCommand e @ [CR]) v else v)
           | ClaudeProc \<Rightarrow> claudeTimer p t v
           | SimpleProc \<Rightarrow> (if t = SimpleHello then stdin_write p (''Hello'' @ [LF]) v else v)
           | InteractiveProc \<Rightarrow> interactiveTimer p t v
           | PlainProc \<Rightarrow> v
           | TestProc \<Rightarrow> v))"

definition step :: "env \<Rightarrow> view \<Rightarrow> event \<Rightarrow> view" where
  "step e v ev =
     (case ev of
        Data data \<Rightarrow> foldl (runHandler e data) v (dataHandlers v)
      | Stdout p data \<Rightarrow> onStdout p data v
      | Stderr p data \<Rightarrow> onStderr p data v
      | ProcExit p code sig \<Rightarrow> onExit e p code sig v
      | ProcError p message \<Rightarrow> onError e p message v
      | ProcClose p \<Rightarrow> onClose e p v
      | Timer p t \<Rightarrow> onTimer e p t v
      | Startup t \<Rightarrow> startupTimer e t v
      | Restart \<Rightarrow> restartTerminal e v)"

definition run :: "env \<Rightarrow> view \<Rightarrow> event list \<Rightarrow> view" where
  "run e v evs = foldl (step e) v evs"

subsection \<open>Notions used in the statements\<close>

text \<open>A sequence of chunks of one session through the output filter.\<close>

fun filterChunks :: "string list \<Rightarrow> view \<Rightarrow> string list \<times> view" where
  "filterChunks [] v = ([], v)"
| "filterChunks (c # cs) v =
     (let (out, v1) = filterClaudeOutput c v;
          (outs, v2) = filterChunks cs v1
      in (out # outs, v2))"



text \<open>At least \<open>n\<close> handlers are bound to the data of the terminal.\<close>

definition handlersAtLeast :: "nat \<Rightarrow> view \<Rightarrow> bool" where
  "handlersAtLeast n v = (n \<le> length (dataHandlers v))"

text \<open>The bounds of the history cursor.\<close>

definition historyBounds :: "view \<Rightarrow> bool" where
  "historyBounds v =
     (- 1 \<le> historyIndex v \<and> historyIndex v \<le> int (length (commandHistory v)) \<and>
      (commandHistory v = [] \<or> 0 \<le> historyIndex v))"





text \<open>Typing a text, one key after the other.\<close>

definition keys :: "string \<Rightarrow> event list" where
  "keys s = map (\<lambda>c. Data [c]) s"

text \<open>
  A sample environment: no \<open>node-pty\<close>, of all commands only \<open>claude\<close> and
  \<open>python\<close> are found, and the lookup of \<open>slowcmd\<close> runs into its timer.
\<close>

definition sampleEnv :: env where
  "sampleEnv =
     \<lparr>win32 = False, nodePty = False, shell = ''/bin/bash'',
      lookup = (\<lambda>name. if name = ''claude'' \<or> name = ''python'' then ProbeExit (Some 0)
                        else if name = ''slowcmd'' then ProbeTimeout
                        else ProbeExit (Some 1)),
      username = ''user'', hostname = ''host'', homedir = ''/home/user'',
      resolve = (\<lambda>dir a. a), chdir = (\<lambda>dir. None), stringify = (\<lambda>args. ''[]''),
      directTest = [TestTimeout False], defaultCommand = [], autoRunCommand = False\<rparr>"

text \<open>The view just opened, and the view after the first prompt was shown.\<close>

definition openedView :: view where
  "openedView = onOpen sampleEnv (newView ''/home/user'')"

definition sampleView :: view where
  "sampleView = run sampleEnv openedView [Startup StartupClear, Startup StartupPrompt]"

section \<open>The terminal view of the second prototype\<close>

text \<open>
  \<open>ClaudeCodeTerminalView\<close>. A session is a child process with the variable
  \<open>command\<close> that its listeners captured. The display is a list of the texts written
  since it was cleared. Every start binds one more listener to the data of the terminal
  and none is removed; \<open>listeners\<close> counts them, and each writes the data to the child
  process of the moment. \<open>spawn\<close> is taken to return a handle; a missing executable is
  reported by the \<open>error\<close> event.
\<close>

record session =
  executable :: string
  arguments :: "string list"
  captured :: string
  input :: "string list"
  killCalls :: nat

record terminalView =
  childProcess :: "nat option"
  sessions :: "session list"
  display :: "string list"
  notices :: "string list"
  listeners :: nat

definition banner :: "string \<Rightarrow> string" where
  "banner command = ''Starting '' @ command @ ''...'' @ [CR, LF]"

definition installHint :: "string \<Rightarrow> string" where
  "installHint command =
     ''Make sure '' @ [APOS] @ command @ [APOS] @ '' is installed and accessible in your PATH.'' @
     [CR, LF]"

definition failureNotice :: "string \<Rightarrow> string" where
  "failureNotice command = ''Failed to start '' @ command @ ''. Check the terminal for details.''"

definition startClaudeCode :: "string \<Rightarrow> terminalView \<Rightarrow> terminalView" where
  "startClaudeCode command v =
     (let v1 = v\<lparr>display := display v @ [banner command]\<rparr>
      in v1\<lparr>childProcess := Some (length (sessions v1)),
             sessions := sessions v1 @
               [\<lparr>executable = ''/usr/local/bin/claude'', arguments = [], captured = command,
                 input = [], killCalls = 0\<rparr>],
             listeners := listeners v1 + 1\<rparr>)"

definition restartClaudeCode :: "string \<Rightarrow> terminalView \<Rightarrow> terminalView" where
  "restartClaudeCode command v =
     (let v1 = (case childProcess v of
                  None \<Rightarrow> v
                | Some p \<Rightarrow>
                    v\<lparr>sessions := (sessions v)[p := (sessions v ! p)\<lparr>killCalls := killCalls (sessions v ! p) + 1\<rparr>],
                      childProcess := None\<rparr>)
      in startClaudeCode command (v1\<lparr>display := []\<rparr>))"

datatype view_event =
    Start
  | RestartButton
  | ChildStdout nat string
  | ChildStderr nat string
  | ChildClose nat "int option"
  | ChildError nat string
  | TerminalData string

text \<open>
  The setting \<open>defaultCommand\<close> is read when a session starts. The listeners of a
  session use what they captured then.
\<close>

definition viewStep :: "string \<Rightarrow> terminalView \<Rightarrow> view_event \<Rightarrow> terminalView" where
  "viewStep setting v ev =
     (case ev of
        Start \<Rightarrow> startClaudeCode setting v
      | RestartButton \<Rightarrow> restartClaudeCode setting v
      | ChildStdout p data \<Rightarrow>
          if p < length (sessions v) then v\<lparr>display := display v @ [data]\<rparr> else v
      | ChildStderr p data \<Rightarrow>
          if p < length (sessions v) then v\<lparr>display := display v @ [data]\<rparr> else v
      | ChildClose p code \<Rightarrow>
          if p < length (sessions v)
          then v\<lparr>display := display v @
                   [[CR, LF, CR, LF] @ CHECK_MARK @ '' Process exited with code '' @
                    showCode code @ [CR, LF],
                    ''Click the terminal icon to restart.'' @ [CR, LF]],
                 childProcess := None\<rparr>
          else v
      | ChildError p message \<Rightarrow>
          if p < length (sessions v)
          then v\<lparr>display := display v @
                   [[CR, LF] @ BALLOT_X @ '' Error: '' @ message @ [CR, LF],
                    installHint (captured (sessions v ! p))],
                 notices := notices v @ [failureNotice (captured (sessions v ! p))],
                 childProcess := None\<rparr>
          else v
      | TerminalData data \<Rightarrow>
          (case childProcess v of
             None \<Rightarrow> v
           | Some p \<Rightarrow>
               if p < length (sessions v)
               then v\<lparr>sessions := (sessions v)[p := (sessions v ! p)
                      \<lparr>input := input (sessions v ! p) @ replicate (listeners v) data\<rparr>]\<rparr>
               else v))"

definition viewRun :: "string \<Rightarrow> terminalView \<Rightarrow> view_event list \<Rightarrow> terminalView" where
  "viewRun setting v evs = foldl (viewStep setting) v evs"

definition newTerminalView :: terminalView where
  "newTerminalView =
     \<lparr>childProcess = None, sessions = [], display = [], notices = [], listeners = 0\<rparr>"

text \<open>What the view did to the child processes: what it spawned, wrote and killed.\<close>

definition processSide :: "terminalView \<Rightarrow> nat option \<times> (string \<times> string list \<times> string list \<times> nat) list" where
  "processSide v =
     (childProcess v, map (\<lambda>s. (executable s, arguments s, input s, killCalls s)) (sessions v))"

text \<open>
  Two displays that differ in nothing but the command named in a banner or in the hint
  after a failed start; two lists of notices that differ in nothing but the command named.
\<close>

definition sameUpToCommand :: "string \<Rightarrow> string \<Rightarrow> string list \<Rightarrow> string list \<Rightarrow> bool" where
  "sameUpToCommand c1 c2 xs ys =
     list_all2 (\<lambda>x y. x = y \<or> (x = banner c1 \<and> y = banner c2) \<or>
                       (x = installHint c1 \<and> y = installHint c2) \<or>
                       (x = failureNotice c1 \<and> y = failureNotice c2)) xs ys"

definition sameUpToBanner :: "string \<Rightarrow> string \<Rightarrow> string list \<Rightarrow> string list \<Rightarrow> bool" where
  "sameUpToBanner c1 c2 xs ys =
     list_all2 (\<lambda>x y. x = y \<or> (x = banner c1 \<and> y = banner c2)) xs ys"

text \<open>
  Two views of runs under the settings \<open>c1\<close> and \<open>c2\<close> agree: the same processes
  with the same input and kills, where a listener captured the setting it captured the
  one of its run, and the displays and notices are the same up to the command named.
\<close>

definition sessionsAgree :: "string \<Rightarrow> string \<Rightarrow> session \<Rightarrow> session \<Rightarrow> bool" where
  "sessionsAgree c1 c2 s1 s2 =
     (executable s1 = executable s2 \<and> arguments s1 = arguments s2 \<and> input s1 = input s2 \<and>
      killCalls s1 = killCalls s2 \<and>
      (captured s1 = captured s2 \<or> (captured s1 = c1 \<and> captured s2 = c2)))"

definition viewsAgree :: "string \<Rightarrow> string \<Rightarrow> terminalView \<Rightarrow> terminalView \<Rightarrow> bool" where
  "viewsAgree c1 c2 v1 v2 =
     (childProcess v1 = childProcess v2 \<and> listeners v1 = listeners v2 \<and>
      list_all2 (sessionsAgree c1 c2) (sessions v1) (sessions v2) \<and>
      sameUpToCommand c1 c2 (display v1) (display v2) \<and>
      sameUpToCommand c1 c2 (notices v1) (notices v2))"

definition fixedExecutable :: "session \<Rightarrow> bool" where
  "fixedExecutable s = (executable s = ''/usr/local/bin/claude'' \<and> arguments s = [])"

section \<open>Properties of the output filter\<close>

lemma countMatches_clear: "countMatches clearScreenPattern clearScreenText = 1"
  by (simp add: clearScreenPattern_def matchLiteral_def clearScreenText_def)

lemma replaceAll_clear: "replaceAll clearScreenPattern rep clearScreenText = rep"
  by (simp add: clearScreenPattern_def matchLiteral_def clearScreenText_def)

lemma contentWithoutAnsi_homeClear: "contentWithoutAnsi homeClearText = []"
  by (simp add: contentWithoutAnsi_def homeClearText_def matchCsi_def isParamChar_def isDigit_def isLetter_def charCode_def)

lemma contentWithoutAnsi_Nil: "contentWithoutAnsi [] = []"
  by (simp add: contentWithoutAnsi_def)

lemma crlf_homeClear: "crlf None homeClearText = homeClearText"
  by (simp add: homeClearText_def)

lemma filter_clearScreenText:
  "filterClaudeOutput clearScreenText v =
     (if 2 < clearScreenCount v + 1 then [] else homeClearText,
      v\<lparr>clearScreenCount := clearScreenCount v + 1\<rparr>)"
  by (simp add: filterClaudeOutput_def filterClear_def Let_def countMatches_clear
      replaceAll_clear contentWithoutAnsi_homeClear contentWithoutAnsi_Nil crlf_homeClear)

lemma filter_new_content:
  assumes "countMatches clearScreenPattern new = 0"
    and "contentWithoutAnsi new \<noteq> lastClaudeOutput v"
    and "50 < length (contentWithoutAnsi new)"
  shows "filterClaudeOutput new v =
     (crlf None new, v\<lparr>clearScreenCount := 0, lastClaudeOutput := contentWithoutAnsi new\<rparr>)"
  using assms by (simp add: filterClaudeOutput_def filterClear_def Let_def)

lemma three_clears:
  assumes "clearScreenCount v = 0"
  shows "filterChunks [clearScreenText, clearScreenText, clearScreenText] v =
     ([homeClearText, homeClearText, []], v\<lparr>clearScreenCount := 3\<rparr>)"
  using assms by (simp add: filter_clearScreenText)

lemma three_clears_in_one_chunk:
  "clearScreenCount v = 0 \<Longrightarrow>
   fst (filterClaudeOutput (clearScreenText @ clearScreenText @ clearScreenText) v) = []"
  by (simp add: filterClaudeOutput_def filterClear_def Let_def clearScreenPattern_def
      matchLiteral_def clearScreenText_def)

text \<open>
  Claim C2, amended. With the counter at zero, of three chunks that each are the
  clear-screen sequence the first two come out as the home-and-clear pair and the third
  comes out empty. With the counter above the threshold, a chunk without the sequence
  whose content without ANSI codes is new and longer than 50 characters sets the counter
  to zero, and the sequence in the next chunk comes out as the pair again.
\<close>

theorem clear_screen_threshold_and_reset:
  "(clearScreenCount v = 0 \<longrightarrow>
      fst (filterChunks [clearScreenText, clearScreenText, clearScreenText] v) =
        [homeClearText, homeClearText, []]) \<and>
   (2 < clearScreenCount w \<and> countMatches clearScreenPattern new = 0 \<and>
    contentWithoutAnsi new \<noteq> lastClaudeOutput w \<and> 50 < length (contentWithoutAnsi new) \<longrightarrow>
      clearScreenCount (snd (filterClaudeOutput new w)) = 0 \<and>
      fst (filterChunks [new, clearScreenText] w) = [crlf None new, homeClearText])"
  by (simp add: three_clears filter_new_content filter_clearScreenText)

theorem clear_screen_threshold_and_reset_witness:
  "fst (filterChunks [clearScreenText, clearScreenText, clearScreenText] (newView [])) =
     [homeClearText, homeClearText, []] \<and>
   fst (filterChunks [replicate 51 (CHR ''a''), clearScreenText]
         (snd (filterChunks [clearScreenText, clearScreenText, clearScreenText] (newView [])))) =
     [replicate 51 (CHR ''a''), homeClearText]"
proof -
  define w where "w = snd (filterChunks [clearScreenText, clearScreenText, clearScreenText] (newView []))"
  define new where "new = replicate 51 (CHR ''a'')"
  have c0: "clearScreenCount (newView []) = 0"
    by (simp add: newView_def)
  have w: "w = (newView [])\<lparr>clearScreenCount := 3\<rparr>"
    unfolding w_def using three_clears [OF c0] by simp
  have h1: "2 < clearScreenCount w"
    by (simp add: w)
  have h2: "countMatches clearScreenPattern new = 0"
    by (simp add: new_def eval_nat_numeral clearScreenPattern_def matchLiteral_def clearScreenText_def)
  have cw: "contentWithoutAnsi new = new"
    by (simp add: new_def eval_nat_numeral contentWithoutAnsi_def matchCsi_def)
  have h3: "contentWithoutAnsi new \<noteq> lastClaudeOutput w"
    by (simp add: cw w newView_def) (simp add: new_def)
  have h4: "50 < length (contentWithoutAnsi new)"
    by (simp add: cw) (simp add: new_def)
  have n: "crlf None new = new"
    by (simp add: new_def eval_nat_numeral)
  from clear_screen_threshold_and_reset [of "newView []" w new] c0 h1 h2 h3 h4
  have "fst (filterChunks [clearScreenText, clearScreenText, clearScreenText] (newView [])) =
          [homeClearText, homeClearText, []] \<and>
        fst (filterChunks [new, clearScreenText] w) = [crlf None new, homeClearText]"
    by blast
  then show ?thesis
    unfolding n unfolding w_def new_def .
qed

text \<open>
  Claim C2 as stated fails at 50 characters: after three sequences, a chunk of exactly 50
  new characters does not reset the counter, and the next sequence is removed.
\<close>

theorem clear_screen_fifty_counterexample:
  "fst (filterChunks
         [clearScreenText, clearScreenText, clearScreenText, replicate 50 (CHR ''a''), clearScreenText]
         (newView [])) =
     [homeClearText, homeClearText, [], replicate 50 (CHR ''a''), []]"
proof -
  let ?new = "replicate 50 (CHR ''a'')"
  have c: "countMatches clearScreenPattern ?new = 0"
    by (simp add: eval_nat_numeral clearScreenPattern_def matchLiteral_def clearScreenText_def)
  have cw: "contentWithoutAnsi ?new = ?new"
    by (simp add: eval_nat_numeral contentWithoutAnsi_def matchCsi_def)
  have n: "crlf None ?new = ?new"
    by (simp add: eval_nat_numeral)
  have f: "filterClaudeOutput ?new v = (?new, v)" if "lastClaudeOutput v = []" "clearScreenCount v = 3" for v
    using that by (simp add: filterClaudeOutput_def filterClear_def Let_def c cw n)
  show ?thesis
    by (simp add: filter_clearScreenText f newView_def)
qed

section \<open>Line endings\<close>














section \<open>The history cursor\<close>

text \<open>
  Only \<open>handleInput\<close>, \<open>startBasicShell\<close> and \<open>restartTerminal\<close> change the history
  and its cursor; everything else leaves both as they are.
\<close>

lemmas term_defs = term_write_def term_clear_def term_reset_def term_scrollToTop_def
  term_scrollToBottom_def term_onData_def

lemmas child_defs = updChild_def stdin_write_def stdin_end_def kill_def setHasOutput_def
  setInactive_def spawn_def

lemma history_showPrompt:
  "commandHistory (showPrompt e v) = commandHistory v \<and> historyIndex (showPrompt e v) = historyIndex v"
  by (simp add: showPrompt_def Let_def term_defs)

lemma history_testCommandAvailable:
  "commandHistory (snd (testCommandAvailable e c v)) = commandHistory v \<and>
   historyIndex (snd (testCommandAvailable e c v)) = historyIndex v"
  by (simp add: testCommandAvailable_def)

lemma history_claudeStrategy:
  "commandHistory (snd (claudeStrategy e args v)) = commandHistory v \<and>
   historyIndex (snd (claudeStrategy e args v)) = historyIndex v"
  by (simp add: claudeStrategy_def Let_def split_def history_testCommandAvailable)

lemma history_handleClaudeCommand:
  "commandHistory (handleClaudeCommand e args v) = commandHistory v \<and>
   historyIndex (handleClaudeCommand e args v) = historyIndex v"
  by (simp add: handleClaudeCommand_def Let_def split_def history_testCommandAvailable
      history_claudeStrategy history_showPrompt term_defs child_defs)

lemma history_directTestRun:
  "commandHistory (snd (directTestRun p b evs v)) = commandHistory v \<and>
   historyIndex (snd (directTestRun p b evs v)) = historyIndex v"
  by (induction p b evs v rule: directTestRun.induct) (simp_all add: Let_def term_defs child_defs)

lemma history_checkClaude:
  "commandHistory (checkClaude e v) = commandHistory v \<and>
   historyIndex (checkClaude e v) = historyIndex v"
  by (simp add: checkClaude_def Let_def split_def history_testCommandAvailable
      history_directTestRun history_showPrompt term_defs child_defs)

lemma history_claudeSimple:
  "commandHistory (claudeSimple e v) = commandHistory v \<and>
   historyIndex (claudeSimple e v) = historyIndex v"
  by (simp add: claudeSimple_def Let_def split_def history_testCommandAvailable
      history_showPrompt term_defs child_defs)

lemma history_executeCommand:
  "commandHistory (executeCommand e c v) = commandHistory v \<and>
   historyIndex (executeCommand e c v) = historyIndex v"
  by (simp add: executeCommand_def Let_def split_def history_testCommandAvailable
      history_handleClaudeCommand history_checkClaude history_claudeSimple
      handleInteractiveCommand_def
      history_showPrompt term_defs child_defs split: list.splits option.splits)


lemmas session_defs = restoreInput_def claudeOutput_def claudeInputHandler_def claudeError_def
  claudeExit_def claudeTimer_def claudeHandler_def simpleExit_def simpleError_def
  interactiveInputHandler_def interactiveTimer_def plainOutput_def interactiveStdout_def
  interactiveExit_def interactiveError_def interactiveClose_def plainError_def ptyWrite_def

lemma history_filterClaudeOutput:
  "commandHistory (snd (filterClaudeOutput d v)) = commandHistory v \<and>
   historyIndex (snd (filterClaudeOutput d v)) = historyIndex v"
  by (simp add: filterClaudeOutput_def Let_def)

lemma history_onStdout:
  "commandHistory (onStdout p d v) = commandHistory v \<and> historyIndex (onStdout p d v) = historyIndex v"
  by (simp add: onStdout_def session_defs Let_def split_def history_filterClaudeOutput
      term_defs child_defs split: option.splits proc_kind.splits)

lemma history_onStderr:
  "commandHistory (onStderr p d v) = commandHistory v \<and> historyIndex (onStderr p d v) = historyIndex v"
  by (simp add: onStderr_def session_defs Let_def split_def history_filterClaudeOutput
      term_defs child_defs split: option.splits proc_kind.splits)

lemma history_onExit:
  "commandHistory (onExit e p c g v) = commandHistory v \<and> historyIndex (onExit e p c g v) = historyIndex v"
  by (simp add: onExit_def session_defs Let_def history_showPrompt
      term_defs child_defs split: option.splits proc_kind.splits)

lemma history_onError:
  "commandHistory (onError e p m v) = commandHistory v \<and> historyIndex (onError e p m v) = historyIndex v"
  by (simp add: onError_def session_defs Let_def history_showPrompt
      term_defs child_defs split: option.splits proc_kind.splits)

lemma history_onClose:
  "commandHistory (onClose e p v) = commandHistory v \<and> historyIndex (onClose e p v) = historyIndex v"
  by (simp add: onClose_def session_defs Let_def history_showPrompt
      term_defs child_defs split: option.splits)

lemma history_onTimer:
  "commandHistory (onTimer e p t v) = commandHistory v \<and> historyIndex (onTimer e p t v) = historyIndex v"
  by (simp add: onTimer_def session_defs Let_def
      term_defs child_defs split: option.splits proc_kind.splits timer.splits)

lemma history_replaceCurrentCommand:
  "commandHistory (replaceCurrentCommand c v) = commandHistory v \<and>
   historyIndex (replaceCurrentCommand c v) = historyIndex v"
  by (simp add: replaceCurrentCommand_def Let_def term_defs)

lemma history_replaceFromHistory:
  "commandHistory (replaceFromHistory v) = commandHistory v \<and>
   historyIndex (replaceFromHistory v) = historyIndex v"
  by (simp add: replaceFromHistory_def history_replaceCurrentCommand split: option.splits)

lemma bounds_handleInput: "historyBounds v \<Longrightarrow> historyBounds (handleInput e d v)"
  unfolding handleInput_def Let_def
  by (simp add: historyBounds_def history_executeCommand history_showPrompt
      history_replaceFromHistory history_replaceCurrentCommand term_defs child_defs
      split: option.splits) linarith

lemma bounds_other_handlers:
  "historyBounds v \<Longrightarrow> h \<noteq> HandleInput \<Longrightarrow> historyBounds (runHandler e d v h)"
  by (cases h) (simp_all add: historyBounds_def runHandler_def session_defs child_defs term_defs
      split: option.splits)

lemma bounds_runHandler: "historyBounds v \<Longrightarrow> historyBounds (runHandler e d v h)"
  by (cases "h = HandleInput") (simp_all add: bounds_other_handlers, simp add: runHandler_def bounds_handleInput)

lemma bounds_handlers: "historyBounds v \<Longrightarrow> historyBounds (foldl (runHandler e d) v hs)"
  by (induction hs arbitrary: v) (simp_all add: bounds_runHandler)

lemma bounds_startPty: "historyBounds v \<Longrightarrow> historyBounds (startPty e v)"
  by (simp add: historyBounds_def startPty_def startBasicShell_def Let_def split_def
      term_defs child_defs split: option.splits)

lemma bounds_restartTerminal: "historyBounds (restartTerminal e v)"
  unfolding restartTerminal_def Let_def
  by (rule bounds_startPty) (simp add: historyBounds_def)


lemma bounds_startupTimer: "historyBounds v \<Longrightarrow> historyBounds (startupTimer e t v)"
  by (cases t) (simp_all add: startupTimer_def bounds_handleInput,
      simp_all add: historyBounds_def history_showPrompt term_defs)

lemma bounds_step: "historyBounds v \<Longrightarrow> historyBounds (step e v ev)"
  by (cases ev) (simp_all add: step_def bounds_handlers bounds_startupTimer bounds_restartTerminal,
      simp_all add: historyBounds_def history_onStdout history_onStderr history_onExit
        history_onError history_onClose history_onTimer child_defs)

lemma bounds_run: "historyBounds v \<Longrightarrow> historyBounds (run e v evs)"
  unfolding run_def by (induction evs arbitrary: v) (simp_all add: bounds_step)

lemma bounds_onOpen: "historyBounds (onOpen e (newView dir))"
  unfolding onOpen_def by (rule bounds_startPty) (simp add: historyBounds_def newView_def)

lemma history_read_up:
  "historyBounds v \<Longrightarrow> 0 < historyIndex v \<Longrightarrow>
   historyAt (v\<lparr>historyIndex := historyIndex v - 1\<rparr>) (historyIndex v - 1) \<noteq> None"
  by (simp add: historyBounds_def historyAt_def)

lemma history_read_down:
  "historyBounds v \<Longrightarrow> historyIndex v < int (length (commandHistory v)) - 1 \<Longrightarrow>
   historyAt (v\<lparr>historyIndex := historyIndex v + 1\<rparr>) (historyIndex v + 1) \<noteq> None"
  by (simp add: historyBounds_def historyAt_def)

text \<open>
  Claim C4, amended. In every state that the view reaches from its opening, by any
  events, the cursor is between -1 and the length of the history, and it is at least 0
  once the history holds a command. The cursor is -1 from the opening, and from a
  restart, until the first command is entered or the down arrow is pressed.
\<close>

theorem history_cursor_bounds:
  "- 1 \<le> historyIndex (run e (onOpen e (newView dir)) evs) \<and>
   historyIndex (run e (onOpen e (newView dir)) evs) \<le>
     int (length (commandHistory (run e (onOpen e (newView dir)) evs))) \<and>
   (commandHistory (run e (onOpen e (newView dir)) evs) \<noteq> [] \<longrightarrow>
      0 \<le> historyIndex (run e (onOpen e (newView dir)) evs))"
  using bounds_run [OF bounds_onOpen, of e e dir evs] by (auto simp add: historyBounds_def)

theorem history_cursor_bounds_witness:
  "commandHistory (run sampleEnv (onOpen sampleEnv (newView ''/home/user''))
      (keys ''ls'' @ [Data [CR], Data UP, Data UP, Data DOWN])) \<noteq> [] \<and>
   0 \<le> historyIndex (run sampleEnv (onOpen sampleEnv (newView ''/home/user''))
      (keys ''ls'' @ [Data [CR], Data UP, Data UP, Data DOWN])) \<and>
   historyIndex (run sampleEnv (onOpen sampleEnv (newView ''/home/user''))
      (keys ''ls'' @ [Data [CR], Data UP, Data UP, Data DOWN])) \<le>
     int (length (commandHistory (run sampleEnv (onOpen sampleEnv (newView ''/home/user''))
      (keys ''ls'' @ [Data [CR], Data UP, Data UP, Data DOWN]))))"
proof -
  have h: "commandHistory (run sampleEnv (onOpen sampleEnv (newView ''/home/user''))
      (keys ''ls'' @ [Data [CR], Data UP, Data UP, Data DOWN])) \<noteq> []"
    by code_simp
  show ?thesis
    using h history_cursor_bounds [of sampleEnv "''/home/user''"
        "keys ''ls'' @ [Data [CR], Data UP, Data UP, Data DOWN]"]
    by blast
qed

text \<open>
  Claim C4 as stated fails in the state the view opens in: the cursor is -1, and the up
  arrow leaves it there.
\<close>

theorem history_cursor_initial_counterexample:
  "historyIndex (run sampleEnv (onOpen sampleEnv (newView ''/home/user'')) [Data UP, Data UP]) = - 1"
  by code_simp

section \<open>The input handler\<close>

lemma handlers_showPrompt: "dataHandlers (showPrompt e v) = dataHandlers v"
  by (simp add: showPrompt_def Let_def term_defs)

lemma handlers_testCommandAvailable:
  "dataHandlers (snd (testCommandAvailable e c v)) = dataHandlers v"
  by (simp add: testCommandAvailable_def)

lemma handlers_claudeStrategy: "dataHandlers (snd (claudeStrategy e args v)) = dataHandlers v"
  by (simp add: claudeStrategy_def Let_def split_def handlers_testCommandAvailable)

lemma handlers_directTestRun: "dataHandlers (snd (directTestRun p b evs v)) = dataHandlers v"
  by (induction p b evs v rule: directTestRun.induct) (simp_all add: Let_def term_defs child_defs)

lemma handlers_filterClaudeOutput: "dataHandlers (snd (filterClaudeOutput d v)) = dataHandlers v"
  by (simp add: filterClaudeOutput_def Let_def)

lemma handlers_replaceCurrentCommand: "dataHandlers (replaceCurrentCommand c v) = dataHandlers v"
  by (simp add: replaceCurrentCommand_def Let_def term_defs)

lemma handlers_replaceFromHistory: "dataHandlers (replaceFromHistory v) = dataHandlers v"
  by (simp add: replaceFromHistory_def handlers_replaceCurrentCommand split: option.splits)

lemma atLeast_less: "handlersAtLeast n v \<Longrightarrow> handlersAtLeast (n - k) v"
  by (simp add: handlersAtLeast_def)

lemma atLeast_updates:
  "handlersAtLeast n (currentCommand_update f1 v) = handlersAtLeast n v"
  "handlersAtLeast n (commandHistory_update f2 v) = handlersAtLeast n v"
  "handlersAtLeast n (historyIndex_update f3 v) = handlersAtLeast n v"
  "handlersAtLeast n (promptShown_update f4 v) = handlersAtLeast n v"
  "handlersAtLeast n (processingInput_update f5 v) = handlersAtLeast n v"
  "handlersAtLeast n (ptyProcess_update f6 v) = handlersAtLeast n v"
  "handlersAtLeast n (lastClaudeOutput_update f7 v) = handlersAtLeast n v"
  "handlersAtLeast n (clearScreenCount_update f8 v) = handlersAtLeast n v"
  "handlersAtLeast n (children_update f9 v) = handlersAtLeast n v"
  "handlersAtLeast n (probed_update f10 v) = handlersAtLeast n v"
  "handlersAtLeast n (cwd_update f11 v) = handlersAtLeast n v"
  "handlersAtLeast n (screen_update f12 v) = handlersAtLeast n v"
  "handlersAtLeast n (scrolled_update f13 v) = handlersAtLeast n v"
  by (simp_all add: handlersAtLeast_def)

lemma atLeast_basic:
  "handlersAtLeast n (showPrompt e v) = handlersAtLeast n v"
  "handlersAtLeast n (replaceFromHistory v) = handlersAtLeast n v"
  "handlersAtLeast n (replaceCurrentCommand c v) = handlersAtLeast n v"
  "handlersAtLeast n (term_write t v) = handlersAtLeast n v"
  "handlersAtLeast n (term_clear v) = handlersAtLeast n v"
  "handlersAtLeast n (term_reset v) = handlersAtLeast n v"
  "handlersAtLeast n (term_scrollToTop v) = handlersAtLeast n v"
  "handlersAtLeast n (term_scrollToBottom v) = handlersAtLeast n v"
  "handlersAtLeast n (updChild p f v) = handlersAtLeast n v"
  "handlersAtLeast n (snd (filterClaudeOutput d v)) = handlersAtLeast n v"
  "handlersAtLeast n (snd (testCommandAvailable e c v)) = handlersAtLeast n v"
  "handlersAtLeast n (snd (claudeStrategy e args v)) = handlersAtLeast n v"
  "handlersAtLeast n (snd (directTestRun p b evs v)) = handlersAtLeast n v"
  "handlersAtLeast n (snd (spawn k c a v)) = handlersAtLeast n v"
  by (simp_all add: handlersAtLeast_def handlers_showPrompt handlers_replaceFromHistory
      handlers_replaceCurrentCommand handlers_filterClaudeOutput handlers_testCommandAvailable
      handlers_claudeStrategy handlers_directTestRun term_defs child_defs)

lemma atLeast_onData: "handlersAtLeast n v \<Longrightarrow> handlersAtLeast n (term_onData h v)"
  by (simp add: handlersAtLeast_def term_onData_def)

lemma grow_handleClaudeCommand:
  "handlersAtLeast n v \<Longrightarrow> handlersAtLeast n (handleClaudeCommand e args v)"
  by (simp add: handleClaudeCommand_def Let_def split_def atLeast_basic atLeast_updates
      atLeast_onData)

lemma grow_checkClaude: "handlersAtLeast n v \<Longrightarrow> handlersAtLeast n (checkClaude e v)"
  by (simp add: checkClaude_def Let_def split_def atLeast_basic atLeast_updates)

lemma grow_claudeSimple: "handlersAtLeast n v \<Longrightarrow> handlersAtLeast n (claudeSimple e v)"
  by (simp add: claudeSimple_def Let_def split_def atLeast_basic atLeast_updates atLeast_onData)

lemma grow_executeCommand:
  "handlersAtLeast n v \<Longrightarrow> handlersAtLeast n (executeCommand e c v)"
  by (simp add: executeCommand_def Let_def split_def grow_handleClaudeCommand
      grow_checkClaude grow_claudeSimple handleInteractiveCommand_def atLeast_basic
      atLeast_updates atLeast_onData split: list.splits option.splits)

lemma grow_handleInput: "handlersAtLeast n v \<Longrightarrow> handlersAtLeast n (handleInput e d v)"
  unfolding handleInput_def Let_def
  by (simp add: grow_executeCommand atLeast_updates atLeast_basic kill_def split: option.splits)

lemma grow_runHandler: "handlersAtLeast n v \<Longrightarrow> handlersAtLeast n (runHandler e d v h)"
  by (cases h) (simp_all add: runHandler_def grow_handleInput session_defs atLeast_basic
      stdin_write_def stdin_end_def kill_def split: option.splits)

lemma grow_handlers:
  "handlersAtLeast n v \<Longrightarrow> handlersAtLeast n (foldl (runHandler e d) v hs)"
  by (induction hs arbitrary: v) (simp_all add: grow_runHandler)

lemma grow_startPty: "handlersAtLeast n v \<Longrightarrow> handlersAtLeast n (startPty e v)"
  by (simp add: startPty_def startBasicShell_def Let_def split_def atLeast_basic
      atLeast_updates atLeast_onData split: option.splits)

lemma grow_restartTerminal:
  "handlersAtLeast n v \<Longrightarrow> handlersAtLeast n (restartTerminal e v)"
  unfolding restartTerminal_def Let_def
  by (intro grow_startPty)
     (simp add: atLeast_updates atLeast_basic atLeast_onData kill_def split: option.splits)

lemma grow_startupTimer:
  "handlersAtLeast n v \<Longrightarrow> handlersAtLeast n (startupTimer e t v)"
  by (cases t) (simp_all add: startupTimer_def grow_handleInput atLeast_basic atLeast_updates)

lemma grow_restoreInput: "handlersAtLeast n v \<Longrightarrow> handlersAtLeast n (restoreInput p v)"
  by (simp add: restoreInput_def atLeast_updates atLeast_onData atLeast_basic setInactive_def)

lemma grow_onStdout: "handlersAtLeast n v \<Longrightarrow> handlersAtLeast n (onStdout p d v)"
  by (simp add: onStdout_def claudeOutput_def interactiveStdout_def plainOutput_def Let_def
      split_def atLeast_basic setHasOutput_def split: option.splits proc_kind.splits)

lemma grow_onStderr: "handlersAtLeast n v \<Longrightarrow> handlersAtLeast n (onStderr p d v)"
  by (simp add: onStderr_def claudeOutput_def plainOutput_def Let_def
      split_def atLeast_basic setHasOutput_def split: option.splits proc_kind.splits)

lemma grow_onExit: "handlersAtLeast n v \<Longrightarrow> handlersAtLeast n (onExit e p c g v)"
  by (simp add: onExit_def claudeExit_def simpleExit_def interactiveExit_def Let_def
      grow_restoreInput atLeast_basic atLeast_updates atLeast_onData
      split: option.splits proc_kind.splits)

lemma grow_onError: "handlersAtLeast n v \<Longrightarrow> handlersAtLeast n (onError e p m v)"
  by (simp add: onError_def claudeError_def simpleError_def interactiveError_def
      plainError_def Let_def grow_restoreInput atLeast_basic atLeast_updates atLeast_onData
      split: option.splits proc_kind.splits)

lemma grow_onClose: "handlersAtLeast n v \<Longrightarrow> handlersAtLeast n (onClose e p v)"
  by (simp add: onClose_def interactiveClose_def Let_def grow_restoreInput atLeast_basic
      split: option.splits)

lemma grow_onTimer: "handlersAtLeast n v \<Longrightarrow> handlersAtLeast n (onTimer e p t v)"
  by (simp add: onTimer_def claudeTimer_def interactiveTimer_def ptyWrite_def Let_def
      atLeast_basic stdin_write_def kill_def split: option.splits proc_kind.splits timer.splits)

lemma grow_step: "handlersAtLeast n v \<Longrightarrow> handlersAtLeast n (step e v ev)"
  by (cases ev) (simp_all add: step_def grow_handlers grow_startupTimer
      grow_restartTerminal grow_onStdout grow_onStderr grow_onExit grow_onError
      grow_onClose grow_onTimer)

lemma grow_run: "handlersAtLeast n v \<Longrightarrow> handlersAtLeast n (run e v evs)"
  unfolding run_def by (induction evs arbitrary: v) (simp_all add: grow_step)

text \<open>No event takes a handler away, and a restart binds two more.\<close>

lemma handlers_never_fewer: "length (dataHandlers v) \<le> length (dataHandlers (run e v evs))"
  using grow_run [of "length (dataHandlers v)" v e evs] by (simp add: handlersAtLeast_def)

lemma restart_binds_two:
  "length (dataHandlers (restartTerminal e v)) = length (dataHandlers v) + 2"
  by (simp add: restartTerminal_def startPty_def startBasicShell_def Let_def split_def
      term_defs child_defs split: option.splits)

lemma session_end_binds_one:
  "dataHandlers (restoreInput p v) = dataHandlers v @ [HandleInput]"
  by (simp add: restoreInput_def term_defs child_defs)

text \<open>
  Claim C1 holds of the specification and fails on the code. In the sample environment
  the view is opened, \<open>claude\<close> is entered and its process exits. Three handlers are
  bound then, two of them the line editor, and the key \<open>l\<close> is taken by both: the
  command buffer holds it twice. After a restart five handlers are bound, three of them
  the line editor, and the key is taken three times.
\<close>

theorem input_handlers_stack:
  "dataHandlers (run sampleEnv sampleView (keys ''claude'' @ [Data [CR], ProcExit 0 (Some 0) None])) =
     [HandleInput, ClaudeInputHandler 0, HandleInput] \<and>
   currentCommand (run sampleEnv sampleView
     (keys ''claude'' @ [Data [CR], ProcExit 0 (Some 0) None, Data ''l''])) = ''ll'' \<and>
   dataHandlers (run sampleEnv sampleView
     (keys ''claude'' @ [Data [CR], ProcExit 0 (Some 0) None, Restart])) =
     [HandleInput, ClaudeInputHandler 0, HandleInput, Noop, HandleInput] \<and>
   currentCommand (run sampleEnv sampleView
     (keys ''claude'' @ [Data [CR], ProcExit 0 (Some 0) None, Restart, Data ''l''])) = ''lll''"
  by code_simp

section \<open>Commands that are not available\<close>

text \<open>
  A lookup that ends with another exit code than 0, with an error or with its timer says
  that the command is not available.
\<close>

lemma not_available:
  "lookup e cmd \<noteq> ProbeExit (Some 0) \<Longrightarrow> \<not> fst (testCommandAvailable e cmd v)"
  by (cases "lookup e cmd") (auto simp add: testCommandAvailable_def)

lemma timeout_not_available: "lookup e cmd = ProbeTimeout \<Longrightarrow> \<not> fst (testCommandAvailable e cmd v)"
  by (simp add: testCommandAvailable_def)

lemma probed_showPrompt: "probed (showPrompt e v) = probed v"
  by (simp add: showPrompt_def Let_def term_defs)

lemma probed_claudeStrategy:
  "\<exists>more. probed (snd (claudeStrategy e args v)) = probed v @ more"
  by (simp add: claudeStrategy_def Let_def split_def testCommandAvailable_def)

lemma first_lookup_claude:
  "take (Suc (length (probed v))) (probed (handleClaudeCommand e args v)) = probed v @ [''claude'']"
proof -
  obtain more where m: "probed (snd (claudeStrategy e args
      (term_write (''Starting Claude Code...'' @ [CR, LF]) (snd (testCommandAvailable e ''claude'' v))))) =
      (probed v @ [''claude'']) @ more"
    using probed_claudeStrategy [of e args
        "term_write (''Starting Claude Code...'' @ [CR, LF]) (snd (testCommandAvailable e ''claude'' v))"]
    by (auto simp add: testCommandAvailable_def term_defs)
  show ?thesis
    using m
    by (simp add: handleClaudeCommand_def Let_def split_def probed_showPrompt term_defs child_defs)
       (simp add: testCommandAvailable_def)
qed

lemma first_lookup:
  assumes parts: "split_ws command = cmd # args"
    and other: "cmd \<notin> {''clear'', ''cd'', ''check-claude'', ''claude-simple''}"
  shows "take (Suc (length (probed v))) (probed (executeCommand e command v)) = probed v @ [cmd]"
proof (cases "cmd = ''claude''")
  case True
  then show ?thesis
    using parts first_lookup_claude [of v e args] by (simp add: executeCommand_def)
next
  case False
  then show ?thesis
    using parts other
    by (simp add: executeCommand_def Let_def split_def probed_showPrompt
        handleInteractiveCommand_def testCommandAvailable_def term_defs child_defs)
qed

text \<open>
  Claim C5. For a command line whose name is none of the names that the dispatcher
  handles itself (\<open>clear\<close>, \<open>cd\<close> and the two diagnostics), the first lookup that the
  dispatcher runs is the lookup of that name, whatever its result. If that lookup does
  not end with exit code 0 (by its timer as well), it is the only lookup, the display
  gets the line with the name and \<open>command not found\<close> (for \<open>claude\<close> a hint
  follows), then the prompt, and no process is spawned, no session set and no handler
  bound.
\<close>

theorem unavailable_command_not_found:
  "(split_ws command = cmd # args \<and>
    cmd \<notin> {''clear'', ''cd'', ''check-claude'', ''claude-simple''} \<longrightarrow>
      take (Suc (length (probed v))) (probed (executeCommand e command v)) = probed v @ [cmd]) \<and>
   (split_ws command = cmd # args \<and>
    cmd \<notin> {''clear'', ''cd'', ''check-claude'', ''claude-simple''} \<and>
    lookup e cmd \<noteq> ProbeExit (Some 0) \<longrightarrow>
     probed (executeCommand e command v) = probed v @ [cmd] \<and>
     screen (executeCommand e command v) =
       screen v @ [cmd @ '': command not found'' @ [CR, LF]] @
       (if cmd = ''claude''
        then [''Please install Claude Code CLI first. Visit: https://claude.ai/code'' @ [CR, LF]]
        else []) @
       [(if promptShown v then [CR, LF] else []) @ promptText e v] \<and>
     promptShown (executeCommand e command v) \<and>
     currentCommand (executeCommand e command v) = [] \<and>
     children (executeCommand e command v) = children v \<and>
     ptyProcess (executeCommand e command v) = ptyProcess v \<and>
     dataHandlers (executeCommand e command v) = dataHandlers v)"
proof (rule conjI)
  show "split_ws command = cmd # args \<and>
    cmd \<notin> {''clear'', ''cd'', ''check-claude'', ''claude-simple''} \<longrightarrow>
      take (Suc (length (probed v))) (probed (executeCommand e command v)) = probed v @ [cmd]"
    using first_lookup by blast
next
  show "split_ws command = cmd # args \<and>
    cmd \<notin> {''clear'', ''cd'', ''check-claude'', ''claude-simple''} \<and>
    lookup e cmd \<noteq> ProbeExit (Some 0) \<longrightarrow>
     probed (executeCommand e command v) = probed v @ [cmd] \<and>
     screen (executeCommand e command v) =
       screen v @ [cmd @ '': command not found'' @ [CR, LF]] @
       (if cmd = ''claude''
        then [''Please install Claude Code CLI first. Visit: https://claude.ai/code'' @ [CR, LF]]
        else []) @
       [(if promptShown v then [CR, LF] else []) @ promptText e v] \<and>
     promptShown (executeCommand e command v) \<and>
     currentCommand (executeCommand e command v) = [] \<and>
     children (executeCommand e command v) = children v \<and>
     ptyProcess (executeCommand e command v) = ptyProcess v \<and>
     dataHandlers (executeCommand e command v) = dataHandlers v"
  proof (intro impI, elim conjE)
  assume parts: "split_ws command = cmd # args"
    and other: "cmd \<notin> {''clear'', ''cd'', ''check-claude'', ''claude-simple''}"
    and missing: "lookup e cmd \<noteq> ProbeExit (Some 0)"
  have no: "\<not> fst (testCommandAvailable e cmd w)" for w
    using missing by (rule not_available)
  show "probed (executeCommand e command v) = probed v @ [cmd] \<and>
     screen (executeCommand e command v) =
       screen v @ [cmd @ '': command not found'' @ [CR, LF]] @
       (if cmd = ''claude''
        then [''Please install Claude Code CLI first. Visit: https://claude.ai/code'' @ [CR, LF]]
        else []) @
       [(if promptShown v then [CR, LF] else []) @ promptText e v] \<and>
     promptShown (executeCommand e command v) \<and>
     currentCommand (executeCommand e command v) = [] \<and>
     children (executeCommand e command v) = children v \<and>
     ptyProcess (executeCommand e command v) = ptyProcess v \<and>
     dataHandlers (executeCommand e command v) = dataHandlers v"
  proof (cases "cmd = ''claude''")
    case True
    have "executeCommand e command v = handleClaudeCommand e args v"
      using parts True by (simp add: executeCommand_def)
    moreover have "handleClaudeCommand e args v =
        showPrompt e (term_write
          (''Please install Claude Code CLI first. Visit: https://claude.ai/code'' @ [CR, LF])
          (term_write (''claude: command not found'' @ [CR, LF])
            (snd (testCommandAvailable e ''claude'' v))))"
      using no [of v] True by (simp add: handleClaudeCommand_def Let_def split_def)
    ultimately show ?thesis
      using True
      by (simp add: showPrompt_def Let_def term_defs testCommandAvailable_def promptText_def)
  next
    case False
    have "executeCommand e command v =
        showPrompt e (term_write (cmd @ '': command not found'' @ [CR, LF])
          (snd (testCommandAvailable e cmd v)))"
      using parts other False no [of v]
      by (simp add: executeCommand_def Let_def split_def)
    then show ?thesis
      using False
      by (simp add: showPrompt_def Let_def term_defs testCommandAvailable_def promptText_def)
  qed
qed
qed

theorem unavailable_command_not_found_witness:
  "screen (executeCommand sampleEnv ''nonexistentcmd'' sampleView) =
     screen sampleView @
       [''nonexistentcmd: command not found'' @ [CR, LF], [CR, LF] @ ''user@host:~$ ''] \<and>
   probed (executeCommand sampleEnv ''nonexistentcmd'' sampleView) = [''nonexistentcmd''] \<and>
   children (executeCommand sampleEnv ''nonexistentcmd'' sampleView) = [] \<and>
   screen (executeCommand sampleEnv ''slowcmd -x'' sampleView) =
     screen sampleView @
       [''slowcmd: command not found'' @ [CR, LF], [CR, LF] @ ''user@host:~$ ''] \<and>
   children (executeCommand sampleEnv ''slowcmd -x'' sampleView) = []"
proof -
  have h1: "split_ws ''nonexistentcmd'' = ''nonexistentcmd'' # []"
    "split_ws ''slowcmd -x'' = ''slowcmd'' # [''-x'']"
    by code_simp+
  have h2: "''nonexistentcmd'' \<notin> {''clear'', ''cd'', ''check-claude'', ''claude-simple''}"
    "''slowcmd'' \<notin> {''clear'', ''cd'', ''check-claude'', ''claude-simple''}"
    by simp_all
  have h3: "lookup sampleEnv ''nonexistentcmd'' \<noteq> ProbeExit (Some 0)"
    "lookup sampleEnv ''slowcmd'' \<noteq> ProbeExit (Some 0)"
    by (simp_all add: sampleEnv_def)
  have s: "promptShown sampleView" "promptText sampleEnv sampleView = ''user@host:~$ ''"
    "probed sampleView = []" "children sampleView = []"
    by code_simp+
  show ?thesis
    using unavailable_command_not_found
      [where command = "''nonexistentcmd''" and cmd = "''nonexistentcmd''" and args = "[]"
        and e = sampleEnv and v = sampleView]
      unavailable_command_not_found
      [where command = "''slowcmd -x''" and cmd = "''slowcmd''" and args = "[''-x'']"
        and e = sampleEnv and v = sampleView] h1 h2 h3
    by (simp add: s)
qed

section \<open>Ctrl+C in a session\<close>

lemma childAt_stdin_write:
  "childAt v p = Some c \<Longrightarrow>
   childAt (stdin_write p d v) p = Some (c\<lparr>stdinWrites := stdinWrites c @ [d]\<rparr>)"
  by (auto simp add: childAt_def stdin_write_def updChild_def split: if_splits)

lemma childAt_kill:
  "childAt v p = Some c \<Longrightarrow> kind c \<noteq> PtyShell \<Longrightarrow>
   childAt (kill p s v) p = Some (c\<lparr>kills := kills c @ [s], killed := True\<rparr>)"
  by (auto simp add: childAt_def kill_def updChild_def split: if_splits)

lemma childAt_term_write: "childAt (term_write t v) p = childAt v p"
  by (simp add: childAt_def term_write_def)

lemma flag_child: "childAt v p = Some c \<Longrightarrow> flag g v p = g c"
  by (simp add: flag_def)

lemma interactive_ctrl_c_forward:
  assumes "childAt v p = Some c" "\<not> killed c" "isActive c" "hasOutput c"
  shows "interactiveInputHandler p [ETX] v = stdin_write p [ETX] v"
  using assms by (simp add: interactiveInputHandler_def flag_child)

lemma interactive_ctrl_c_kill:
  assumes "childAt v p = Some c" "\<not> killed c" "isActive c" "\<not> hasOutput c"
  shows "interactiveInputHandler p [ETX] v =
     kill p (Some SIGINT) (term_write (''^C'' @ [CR, LF]) v)"
  using assms by (simp add: interactiveInputHandler_def flag_child)

lemma interactive_timer_term:
  assumes "childAt v p = Some c" "kind c = InteractiveProc"
  shows "onTimer e p CtrlCTerm v = (if killed c then v else kill p (Some SIGTERM) v)"
  using assms by (simp add: onTimer_def interactiveTimer_def flag_child)

lemma interactive_timer_kill:
  assumes "childAt v p = Some c" "kind c = InteractiveProc"
  shows "onTimer e p CtrlCKill v = (if killed c then v else kill p (Some SIGKILL) v)"
  using assms by (simp add: onTimer_def interactiveTimer_def flag_child)

text \<open>
  In the session of an interactive tool that has given no output, Ctrl+C sends SIGINT;
  \<open>kill\<close> sets \<open>killed\<close> of the handle, and the two timers, which test
  \<open>killed\<close>, then send nothing.
\<close>

lemma interactive_ctrl_c_stops_at_sigint:
  assumes c: "childAt v p = Some c" "\<not> killed c" "isActive c" "\<not> hasOutput c"
    and k: "kind c = InteractiveProc"
  shows "childAt (interactiveInputHandler p [ETX] v) p =
      Some (c\<lparr>kills := kills c @ [Some SIGINT], killed := True\<rparr>) \<and>
    onTimer e p CtrlCTerm (interactiveInputHandler p [ETX] v) =
      interactiveInputHandler p [ETX] v \<and>
    onTimer e p CtrlCKill (interactiveInputHandler p [ETX] v) =
      interactiveInputHandler p [ETX] v"
proof -
  define v1 where "v1 = interactiveInputHandler p [ETX] v"
  have v1: "v1 = kill p (Some SIGINT) (term_write (''^C'' @ [CR, LF]) v)"
    unfolding v1_def by (rule interactive_ctrl_c_kill [OF c])
  have c1: "childAt v1 p = Some (c\<lparr>kills := kills c @ [Some SIGINT], killed := True\<rparr>)"
    unfolding v1 using k by (intro childAt_kill) (simp_all add: childAt_term_write c)
  have t1: "onTimer e p CtrlCTerm v1 = v1"
    using interactive_timer_term [OF c1, of e] k by simp
  have t2: "onTimer e p CtrlCKill v1 = v1"
    using interactive_timer_kill [OF c1, of e] k by simp
  show ?thesis
    using c1 t1 t2 by (simp add: v1_def)
qed

text \<open>In the session of the \<open>claude\<close> command every key is written to stdin.\<close>

lemma claude_input_forward:
  assumes "childAt v p = Some c" "\<not> killed c" "isActive c" "kind c = ClaudeProc"
    "ptyProcess v = Some p"
  shows "claudeInputHandler p d v = stdin_write p d v"
  using assms by (simp add: claudeInputHandler_def flag_child hasStdin_def)

text \<open>
  Claim C6 holds of the specification and fails on the code, in two places. In the
  sample environment \<open>python\<close> is entered and gives no output; Ctrl+C and the two
  timers that it sets leave the process with SIGINT alone, with no SIGTERM and no
  SIGKILL, though it has not exited. And \<open>claude\<close> is entered and gives no output;
  Ctrl+C is written to its stdin and no signal is sent.
\<close>

theorem ctrl_c_without_output:
  "map (\<lambda>c. (kind c, hasOutput c, stdinWrites c, kills c, killed c))
     (children (run sampleEnv sampleView
        (keys ''python'' @ [Data [CR], Data [ETX], Timer 0 CtrlCTerm, Timer 0 CtrlCKill]))) =
     [(InteractiveProc, False, [], [Some SIGINT], True)] \<and>
   ptyProcess (run sampleEnv sampleView
        (keys ''python'' @ [Data [CR], Data [ETX], Timer 0 CtrlCTerm, Timer 0 CtrlCKill])) = Some 0 \<and>
   map (\<lambda>c. (kind c, hasOutput c, stdinWrites c, kills c, killed c))
     (children (run sampleEnv sampleView (keys ''claude'' @ [Data [CR], Data [ETX]]))) =
     [(ClaudeProc, False, [[ETX]], [], False)]"
  by code_simp

section \<open>The command buffer\<close>

lemma printableFirst_not_special:
  "printableFirst d \<Longrightarrow> d \<noteq> [CR] \<and> d \<noteq> [DEL] \<and> d \<noteq> [BS] \<and> d \<noteq> [ETX] \<and> d \<noteq> UP \<and> d \<noteq> DOWN"
  by (auto simp add: printableFirst_def charCode_def UP_def DOWN_def)

lemma token_first:
  assumes "ptyProcess v = None" "\<not> processingInput v" "printableFirst d"
  shows "handleInput e d v = v\<lparr>currentCommand := currentCommand v @ d, screen := screen v @ [d]\<rparr>"
proof -
  have "handleInput e d v =
      (term_write d (v\<lparr>processingInput := True, currentCommand := currentCommand v @ d\<rparr>))
        \<lparr>processingInput := False\<rparr>"
    using assms printableFirst_not_special [OF assms(3)]
    by (simp add: handleInput_def Let_def)
  also have "\<dots> = v\<lparr>currentCommand := currentCommand v @ d, screen := screen v @ [d]\<rparr>"
    using assms by (simp add: term_write_def)
  finally show ?thesis .
qed

text \<open>
  Claim C10. The line editor (no session active, no input being processed) looks at the
  first character of a token only: a token whose first character has a code from 32 to
  126 is none of the special tokens, and all of it, whatever follows the first character,
  is appended to the command buffer and written to the display, in one write.
\<close>

theorem token_classified_by_first_character:
  "ptyProcess v = None \<and> \<not> processingInput v \<and> printableFirst d \<longrightarrow>
     handleInput e d v = v\<lparr>currentCommand := currentCommand v @ d, screen := screen v @ [d]\<rparr>"
  using token_first by blast

theorem token_classified_by_first_character_witness:
  "currentCommand (handleInput sampleEnv (''a'' @ [ETX, CR] @ ''b'') sampleView) = ''a'' @ [ETX, CR] @ ''b'' \<and>
   screen (handleInput sampleEnv (''a'' @ [ETX, CR] @ ''b'') sampleView) =
     screen sampleView @ [''a'' @ [ETX, CR] @ ''b'']"
proof -
  have h: "ptyProcess sampleView = None" "\<not> processingInput sampleView"
    "printableFirst (''a'' @ [ETX, CR] @ ''b'')" "currentCommand sampleView = []"
    by code_simp+
  show ?thesis
    using token_classified_by_first_character
      [of sampleView "''a'' @ [ETX, CR] @ ''b''" sampleEnv] h
    by simp
qed















section \<open>The built-in \<open>clear\<close>\<close>

lemma execute_clear:
  "split_ws command = ''clear'' # args \<Longrightarrow>
   executeCommand e command v = showPrompt e (term_scrollToTop (term_clear v))"
  by (simp add: executeCommand_def)

lemma clear_after_prompt:
  "promptShown v \<Longrightarrow>
   showPrompt e (term_scrollToTop (term_clear v)) =
     v\<lparr>currentCommand := [], screen := [[CR, LF] @ promptText e v], scrolled := Bottom\<rparr>"
  by (simp add: showPrompt_def Let_def term_defs promptText_def)

lemma promptText_cwd: "cwd w = cwd v \<Longrightarrow> promptText e w = promptText e v"
  by (simp add: promptText_def Let_def)

text \<open>
  Claim C8, amended. Once a prompt has been shown, running \<open>clear\<close> a second time
  leaves the view as the first run left it: the display holds nothing but a line break
  and the prompt and is scrolled to its end, the command buffer is empty, and neither run
  spawned a process, ran a lookup or set a session.
\<close>

theorem clear_twice_as_once:
  "promptShown v \<and> split_ws command = ''clear'' # args \<longrightarrow>
     executeCommand e command (executeCommand e command v) = executeCommand e command v \<and>
     screen (executeCommand e command v) = [[CR, LF] @ promptText e v] \<and>
     scrolled (executeCommand e command v) = Bottom \<and>
     promptShown (executeCommand e command v) \<and>
     children (executeCommand e command v) = children v \<and>
     probed (executeCommand e command v) = probed v \<and>
     ptyProcess (executeCommand e command v) = ptyProcess v \<and>
     currentCommand (executeCommand e command v) = []"
proof (intro impI, elim conjE)
  assume shown: "promptShown v" and parts: "split_ws command = ''clear'' # args"
  define v1 where "v1 = v\<lparr>currentCommand := [], screen := [[CR, LF] @ promptText e v], scrolled := Bottom\<rparr>"
  have once: "executeCommand e command v = v1"
    unfolding v1_def by (simp add: execute_clear [OF parts] clear_after_prompt [OF shown])
  have shown1: "promptShown v1"
    using shown by (simp add: v1_def)
  have prompt1: "promptText e v1 = promptText e v"
    by (rule promptText_cwd) (simp add: v1_def)
  have twice: "executeCommand e command v1 = v1"
    unfolding execute_clear [OF parts] clear_after_prompt [OF shown1] prompt1
    by (simp add: v1_def)
  show "executeCommand e command (executeCommand e command v) = executeCommand e command v \<and>
     screen (executeCommand e command v) = [[CR, LF] @ promptText e v] \<and>
     scrolled (executeCommand e command v) = Bottom \<and>
     promptShown (executeCommand e command v) \<and>
     children (executeCommand e command v) = children v \<and>
     probed (executeCommand e command v) = probed v \<and>
     ptyProcess (executeCommand e command v) = ptyProcess v \<and>
     currentCommand (executeCommand e command v) = []"
    unfolding once twice using shown by (simp add: v1_def)
qed

theorem clear_twice_as_once_witness:
  "executeCommand sampleEnv ''clear'' (executeCommand sampleEnv ''clear'' sampleView) =
     executeCommand sampleEnv ''clear'' sampleView \<and>
   screen (executeCommand sampleEnv ''clear'' sampleView) = [[CR, LF] @ ''user@host:~$ ''] \<and>
   children (executeCommand sampleEnv ''clear'' sampleView) = []"
proof -
  have h: "promptShown sampleView" "split_ws ''clear'' = ''clear'' # []"
    "promptText sampleEnv sampleView = ''user@host:~$ ''" "children sampleView = []"
    by code_simp+
  show ?thesis
    using clear_twice_as_once [of sampleView "''clear''" "[]" sampleEnv] h
    by simp
qed

text \<open>
  Claim C8 as stated fails before the first prompt: the view takes keys from the moment
  it is opened, the first prompt comes from a timer, and the first prompt ever is
  written without the line break. One \<open>clear\<close> entered before it leaves the bare
  prompt on the display, two leave a line break and the prompt.
\<close>

theorem clear_before_first_prompt_counterexample:
  "screen (run sampleEnv openedView (keys ''clear'' @ [Data [CR]])) = [''user@host:~$ ''] \<and>
   screen (run sampleEnv openedView (keys ''clear'' @ [Data [CR]] @ keys ''clear'' @ [Data [CR]])) =
     [[CR, LF] @ ''user@host:~$ '']"
  by code_simp

section \<open>The setting of the second prototype\<close>

lemma sameUpToCommand_snoc:
  "sameUpToCommand c1 c2 xs ys \<Longrightarrow>
   x = y \<or> (x = banner c1 \<and> y = banner c2) \<or> (x = installHint c1 \<and> y = installHint c2) \<or>
     (x = failureNotice c1 \<and> y = failureNotice c2) \<Longrightarrow>
   sameUpToCommand c1 c2 (xs @ [x]) (ys @ [y])"
  by (simp add: sameUpToCommand_def list_all2_appendI)

lemma sameUpToCommand_Nil: "sameUpToCommand c1 c2 [] []"
  by (simp add: sameUpToCommand_def)

lemma agree_start:
  assumes "viewsAgree c1 c2 v1 v2"
  shows "viewsAgree c1 c2 (startClaudeCode c1 v1) (startClaudeCode c2 v2)"
proof -
  have len: "length (sessions v1) = length (sessions v2)"
    using assms by (auto simp add: viewsAgree_def dest: list_all2_lengthD)
  show ?thesis
    using assms len
    by (simp add: viewsAgree_def startClaudeCode_def Let_def sameUpToCommand_snoc
        list_all2_appendI sessionsAgree_def)
qed

lemma agree_update:
  assumes all: "list_all2 (sessionsAgree c1 c2) xs ys"
    and f: "\<And>s1 s2. sessionsAgree c1 c2 s1 s2 \<Longrightarrow> sessionsAgree c1 c2 (f s1) (f s2)"
  shows "list_all2 (sessionsAgree c1 c2) (xs[p := f (xs ! p)]) (ys[p := f (ys ! p)])"
proof (cases "p < length xs")
  case True
  then have "sessionsAgree c1 c2 (xs ! p) (ys ! p)"
    using all by (simp add: list_all2_nthD)
  then show ?thesis
    using all by (intro list_all2_update_cong f)
next
  case False
  moreover have "length ys = length xs"
    using all by (simp add: list_all2_lengthD)
  ultimately show ?thesis
    using all by (simp add: list_update_beyond)
qed

lemma agree_kill:
  assumes "list_all2 (sessionsAgree c1 c2) xs ys"
  shows "list_all2 (sessionsAgree c1 c2)
     (xs[p := (xs ! p)\<lparr>killCalls := killCalls (xs ! p) + 1\<rparr>])
     (ys[p := (ys ! p)\<lparr>killCalls := killCalls (ys ! p) + 1\<rparr>])"
  using assms
  by (rule agree_update [where f = "\<lambda>s. s\<lparr>killCalls := killCalls s + 1\<rparr>"])
     (simp add: sessionsAgree_def)

lemma agree_input:
  assumes "list_all2 (sessionsAgree c1 c2) xs ys"
  shows "list_all2 (sessionsAgree c1 c2)
     (xs[p := (xs ! p)\<lparr>input := input (xs ! p) @ replicate n d\<rparr>])
     (ys[p := (ys ! p)\<lparr>input := input (ys ! p) @ replicate n d\<rparr>])"
  using assms
  by (rule agree_update [where f = "\<lambda>s. s\<lparr>input := input s @ replicate n d\<rparr>"])
     (simp add: sessionsAgree_def)

lemma agree_restart:
  assumes "viewsAgree c1 c2 v1 v2"
  shows "viewsAgree c1 c2 (restartClaudeCode c1 v1) (restartClaudeCode c2 v2)"
proof -
  have "viewsAgree c1 c2
     ((case childProcess v1 of None \<Rightarrow> v1
       | Some p \<Rightarrow> v1\<lparr>sessions := (sessions v1)[p := (sessions v1 ! p)\<lparr>killCalls := killCalls (sessions v1 ! p) + 1\<rparr>],
                     childProcess := None\<rparr>)\<lparr>display := []\<rparr>)
     ((case childProcess v2 of None \<Rightarrow> v2
       | Some p \<Rightarrow> v2\<lparr>sessions := (sessions v2)[p := (sessions v2 ! p)\<lparr>killCalls := killCalls (sessions v2 ! p) + 1\<rparr>],
                     childProcess := None\<rparr>)\<lparr>display := []\<rparr>)"
    using assms agree_kill [of c1 c2 "sessions v1" "sessions v2"]
    by (auto simp add: viewsAgree_def sameUpToCommand_Nil split: option.splits)
  then show ?thesis
    unfolding restartClaudeCode_def Let_def by (rule agree_start)
qed

lemma agree_step:
  assumes "viewsAgree c1 c2 v1 v2"
  shows "viewsAgree c1 c2 (viewStep c1 v1 ev) (viewStep c2 v2 ev)"
proof -
  have len: "length (sessions v1) = length (sessions v2)"
    using assms by (auto simp add: viewsAgree_def dest: list_all2_lengthD)
  have ses: "list_all2 (sessionsAgree c1 c2) (sessions v1) (sessions v2)"
    using assms by (simp add: viewsAgree_def)
  show ?thesis
  proof (cases ev)
    case Start
    then show ?thesis using assms by (simp add: viewStep_def agree_start)
  next
    case RestartButton
    then show ?thesis using assms by (simp add: viewStep_def agree_restart)
  next
    case (ChildStdout p d)
    then show ?thesis
      using assms len by (simp add: viewStep_def viewsAgree_def sameUpToCommand_snoc)
  next
    case (ChildStderr p d)
    then show ?thesis
      using assms len by (simp add: viewStep_def viewsAgree_def sameUpToCommand_snoc)
  next
    case (ChildClose p code)
    then show ?thesis
      using assms len
      by (simp add: viewStep_def viewsAgree_def sameUpToCommand_snoc
          sameUpToCommand_snoc [of _ _ "_ @ [_]" "_ @ [_]", simplified])
  next
    case (ChildError p m)
    show ?thesis
    proof (cases "p < length (sessions v1)")
      case True
      then have "sessionsAgree c1 c2 (sessions v1 ! p) (sessions v2 ! p)"
        using ses by (simp add: list_all2_nthD)
      then have cap: "captured (sessions v1 ! p) = captured (sessions v2 ! p) \<or>
          (captured (sessions v1 ! p) = c1 \<and> captured (sessions v2 ! p) = c2)"
        by (simp add: sessionsAgree_def)
      have d: "sameUpToCommand c1 c2
          ((display v1 @ [[CR, LF] @ BALLOT_X @ '' Error: '' @ m @ [CR, LF]]) @
             [installHint (captured (sessions v1 ! p))])
          ((display v2 @ [[CR, LF] @ BALLOT_X @ '' Error: '' @ m @ [CR, LF]]) @
             [installHint (captured (sessions v2 ! p))])"
        using assms cap
        by (intro sameUpToCommand_snoc) (auto simp add: viewsAgree_def)
      have n: "sameUpToCommand c1 c2
          (notices v1 @ [failureNotice (captured (sessions v1 ! p))])
          (notices v2 @ [failureNotice (captured (sessions v2 ! p))])"
        using assms cap
        by (intro sameUpToCommand_snoc) (auto simp add: viewsAgree_def)
      show ?thesis
        using ChildError True len assms d n
        by (simp add: viewStep_def viewsAgree_def)
    next
      case False
      then show ?thesis
        using ChildError len assms by (simp add: viewStep_def)
    qed
  next
    case (TerminalData d)
    then show ?thesis
      using assms len agree_input [of c1 c2 "sessions v1" "sessions v2" _ "listeners v2"]
      by (auto simp add: viewStep_def viewsAgree_def split: option.splits)
  qed
qed

lemma agree_run:
  "viewsAgree c1 c2 v1 v2 \<Longrightarrow> viewsAgree c1 c2 (viewRun c1 v1 evs) (viewRun c2 v2 evs)"
  unfolding viewRun_def
  by (induction evs arbitrary: v1 v2) (simp_all add: agree_step)

lemma agree_new: "viewsAgree c1 c2 newTerminalView newTerminalView"
  by (simp add: viewsAgree_def newTerminalView_def sameUpToCommand_def)

lemma agree_processSide: "viewsAgree c1 c2 v1 v2 \<Longrightarrow> processSide v1 = processSide v2"
proof -
  assume a: "viewsAgree c1 c2 v1 v2"
  then have "list_all2 (sessionsAgree c1 c2) (sessions v1) (sessions v2)"
    by (simp add: viewsAgree_def)
  then have "map (\<lambda>s. (executable s, arguments s, input s, killCalls s)) (sessions v1) =
      map (\<lambda>s. (executable s, arguments s, input s, killCalls s)) (sessions v2)"
    by (induction rule: list_all2_induct) (simp_all add: sessionsAgree_def)
  then show ?thesis
    using a by (simp add: processSide_def viewsAgree_def)
qed


lemma fixed_update:
  "list_all fixedExecutable xs \<Longrightarrow> (\<And>s. fixedExecutable s \<Longrightarrow> fixedExecutable (f s)) \<Longrightarrow>
   list_all fixedExecutable (xs[p := f (xs ! p)])"
proof -
  assume all: "list_all fixedExecutable xs" and f: "\<And>s. fixedExecutable s \<Longrightarrow> fixedExecutable (f s)"
  have "fixedExecutable (xs[p := f (xs ! p)] ! n)" if "n < length xs" for n
  proof (cases "n = p")
    case True
    then show ?thesis using that all by (simp add: f list_all_length)
  next
    case False
    then show ?thesis using that all by (simp add: list_all_length)
  qed
  then show ?thesis
    by (simp add: list_all_length)
qed

lemma fixed_start:
  "list_all fixedExecutable (sessions v) \<Longrightarrow> list_all fixedExecutable (sessions (startClaudeCode c v))"
  by (simp add: startClaudeCode_def Let_def fixedExecutable_def)

lemma fixed_restart:
  assumes "list_all fixedExecutable (sessions v)"
  shows "list_all fixedExecutable (sessions (restartClaudeCode c v))"
proof -
  have "list_all fixedExecutable ((sessions v)[p := (\<lambda>s. s\<lparr>killCalls := killCalls s + 1\<rparr>) (sessions v ! p)])" for p
    using assms by (rule fixed_update) (simp add: fixedExecutable_def)
  then show ?thesis
    using assms
    unfolding restartClaudeCode_def Let_def
    by (intro fixed_start) (simp split: option.splits)
qed

lemma fixed_step:
  assumes "list_all fixedExecutable (sessions v)"
  shows "list_all fixedExecutable (sessions (viewStep c v ev))"
proof (cases ev)
  case (TerminalData d)
  have "list_all fixedExecutable
      ((sessions v)[p := (\<lambda>s. s\<lparr>input := input s @ replicate (listeners v) d\<rparr>) (sessions v ! p)])" for p
    using assms by (rule fixed_update) (simp add: fixedExecutable_def)
  then show ?thesis
    using assms TerminalData by (simp add: viewStep_def split: option.splits)
qed (use assms in \<open>simp_all add: viewStep_def fixed_start fixed_restart\<close>)

lemma fixed_run:
  "list_all fixedExecutable (sessions v) \<Longrightarrow> list_all fixedExecutable (sessions (viewRun c v evs))"
  unfolding viewRun_def
  by (induction evs arbitrary: v) (simp_all add: fixed_step)

text \<open>
  Claim C9, amended. In the second prototype what the view does to its child processes
  does not depend on the setting \<open>defaultCommand\<close>: for any two values of the setting
  and any events after the view was made, the same processes are spawned, all of them the
  executable \<open>/usr/local/bin/claude\<close> with no arguments, and they get the same input
  and the same kills. The setting shows in texts for the user only: in the banner of a
  start, and after a failed start in the hint on the display and in the notice.
\<close>

theorem spawn_independent_of_setting:
  "processSide (viewRun c1 newTerminalView evs) = processSide (viewRun c2 newTerminalView evs) \<and>
   list_all fixedExecutable (sessions (viewRun c1 newTerminalView evs)) \<and>
   sameUpToCommand c1 c2 (display (viewRun c1 newTerminalView evs))
     (display (viewRun c2 newTerminalView evs)) \<and>
   sameUpToCommand c1 c2 (notices (viewRun c1 newTerminalView evs))
     (notices (viewRun c2 newTerminalView evs))"
proof -
  have agree: "viewsAgree c1 c2 (viewRun c1 newTerminalView evs) (viewRun c2 newTerminalView evs)"
    by (rule agree_run) (rule agree_new)
  have fixed: "list_all fixedExecutable (sessions (viewRun c1 newTerminalView evs))"
    by (rule fixed_run) (simp add: newTerminalView_def)
  show ?thesis
    using agree agree_processSide [OF agree] fixed by (simp add: viewsAgree_def)
qed

theorem spawn_independent_of_setting_witness:
  "map (\<lambda>s. (executable s, arguments s))
     (sessions (viewRun ''bash'' newTerminalView
        [Start, TerminalData ''hi'', ChildError 0 ''spawn ENOENT'', RestartButton])) =
   [(''/usr/local/bin/claude'', []), (''/usr/local/bin/claude'', [])] \<and>
   processSide (viewRun ''bash'' newTerminalView
        [Start, TerminalData ''hi'', ChildError 0 ''spawn ENOENT'', RestartButton]) =
   processSide (viewRun ''claude'' newTerminalView
        [Start, TerminalData ''hi'', ChildError 0 ''spawn ENOENT'', RestartButton])"
proof -
  have m: "map (\<lambda>s. (executable s, arguments s))
     (sessions (viewRun ''bash'' newTerminalView
        [Start, TerminalData ''hi'', ChildError 0 ''spawn ENOENT'', RestartButton])) =
   [(''/usr/local/bin/claude'', []), (''/usr/local/bin/claude'', [])]"
    by code_simp
  show ?thesis
    using m spawn_independent_of_setting [of "''bash''"
        "[Start, TerminalData ''hi'', ChildError 0 ''spawn ENOENT'', RestartButton]" "''claude''"]
    by blast
qed

text \<open>
  Claim C9 as stated fails after a failed start: the hint that follows the error names
  the command of the setting, so the displays under two settings differ in more than the
  banner.
\<close>

theorem setting_in_error_hint_counterexample:
  "\<not> sameUpToBanner ''claude'' ''bash''
       (display (viewRun ''claude'' newTerminalView [Start, ChildError 0 ''spawn ENOENT'']))
       (display (viewRun ''bash'' newTerminalView [Start, ChildError 0 ''spawn ENOENT''])) \<and>
   display (viewRun ''claude'' newTerminalView [Start, ChildError 0 ''spawn ENOENT'']) ! 2 =
     installHint ''claude'' \<and>
   display (viewRun ''bash'' newTerminalView [Start, ChildError 0 ''spawn ENOENT'']) ! 2 =
     installHint ''bash''"
  by code_simp

end
